theory Spec2Isabelle
  imports Main
begin

section \<open>JavaScript values\<close>

text \<open>
  The worker is TypeScript; at run time the request body is whatever \<^verbatim>\<open>request.json()\<close>
  parsed, so the model works on untyped JavaScript values. Strings are byte lists holding
  the UTF-8 encoding of the source's text (the non-ASCII characters of the messages are
  written as \<open>CHR 0x..\<close> bytes).

  JavaScript numbers are IEEE-754 doubles. Their arithmetic, their printing and the parsing
  of numeric strings belong to the language runtime, not to this repository, and the model
  takes them as a parameter: a record \<open>'n numbers\<close> of the operations on a carrier \<open>'n\<close>.
  Every definition below is written against that record; \<open>safe_integers\<close> (further down)
  is the instance used to evaluate concrete requests.
\<close>

datatype 'n jsval =
    Undefined
  | Null
  | Bool bool
  | Num 'n
  | Str string
  | Arr "'n jsval list"
  | Obj "(string \<times> 'n jsval) list"

text \<open>Thrown values: the exception classes the code can meet, each with its message.
  \<open>NonRetryableError\<close> is the class a workflow throws to mark a failure as not retryable;
  the source never throws it.\<close>

datatype exn =
    Error string
  | TypeError string
  | SyntaxError string
  | NonRetryableError string

fun message :: "exn \<Rightarrow> string" where
  "message (Error m) = m"
| "message (TypeError m) = m"
| "message (SyntaxError m) = m"
| "message (NonRetryableError m) = m"

record 'n numbers =
  num_add :: "'n \<Rightarrow> 'n \<Rightarrow> 'n"
  num_mul :: "'n \<Rightarrow> 'n \<Rightarrow> 'n"
  num_lit :: "nat \<Rightarrow> 'n"
  num_nan :: "'n"
  num_is_nan :: "'n \<Rightarrow> bool"
  num_show :: "'n \<Rightarrow> string"
  num_parse :: "string \<Rightarrow> 'n"

text \<open>Sequencing of computations that may throw: the first exception wins.\<close>

fun and_then :: "exn + 'a \<Rightarrow> ('a \<Rightarrow> exn + 'b) \<Rightarrow> exn + 'b" where
  "and_then (Inl e) f = Inl e"
| "and_then (Inr x) f = f x"

text \<open>\<^verbatim>\<open>typeof v\<close>.\<close>

fun typeof :: "'n jsval \<Rightarrow> string" where
  "typeof Undefined = ''undefined''"
| "typeof Null = ''object''"
| "typeof (Bool b) = ''boolean''"
| "typeof (Num n) = ''number''"
| "typeof (Str s) = ''string''"
| "typeof (Arr xs) = ''object''"
| "typeof (Obj kvs) = ''object''"

text \<open>\<^verbatim>\<open>Array.prototype.join\<close> with the separator \<^verbatim>\<open>","\<close>, on the already converted
  elements; converting an element may have thrown.\<close>

fun join_comma :: "(exn + string) list \<Rightarrow> exn + string" where
  "join_comma [] = Inr ''''"
| "join_comma [x] = x"
| "join_comma (x # y # ys) =
     and_then x (\<lambda>s. and_then (join_comma (y # ys)) (\<lambda>t. Inr (s @ '','' @ t)))"

text \<open>
  \<^verbatim>\<open>ToString\<close>, as a template literal applies it. For the objects \<^verbatim>\<open>JSON.parse\<close> builds:
  an array is joined (\<^verbatim>\<open>null\<close> and \<^verbatim>\<open>undefined\<close> elements print as the empty string); a
  plain object prints as \<^verbatim>\<open>[object Object]\<close> through \<^verbatim>\<open>Object.prototype.toString\<close>, unless
  it has an own property \<^verbatim>\<open>toString\<close>, which (parsed from JSON) is never callable and
  leaves no method that returns a primitive: a \<^verbatim>\<open>TypeError\<close>.
\<close>

fun ToString :: "'n numbers \<Rightarrow> 'n jsval \<Rightarrow> exn + string" where
  "ToString ns Undefined = Inr ''undefined''"
| "ToString ns Null = Inr ''null''"
| "ToString ns (Bool b) = Inr (if b then ''true'' else ''false'')"
| "ToString ns (Num n) = Inr (num_show ns n)"
| "ToString ns (Str s) = Inr s"
| "ToString ns (Arr xs) =
     join_comma (map (\<lambda>x. if x = Undefined \<or> x = Null then Inr '''' else ToString ns x) xs)"
| "ToString ns (Obj kvs) =
     (if ''toString'' \<in> set (map fst kvs)
      then Inl (TypeError ''Cannot convert object to primitive value'')
      else Inr ''[object Object]'')"

text \<open>\<^verbatim>\<open>ToPrimitive\<close>: arrays and objects become their string, primitives stay.\<close>

fun ToPrimitive :: "'n numbers \<Rightarrow> 'n jsval \<Rightarrow> exn + 'n jsval" where
  "ToPrimitive ns (Arr xs) = and_then (ToString ns (Arr xs)) (\<lambda>s. Inr (Str s))"
| "ToPrimitive ns (Obj kvs) = and_then (ToString ns (Obj kvs)) (\<lambda>s. Inr (Str s))"
| "ToPrimitive ns v = Inr v"

text \<open>\<^verbatim>\<open>ToNumber\<close>.\<close>

fun ToNumber :: "'n numbers \<Rightarrow> 'n jsval \<Rightarrow> exn + 'n" where
  "ToNumber ns Undefined = Inr (num_nan ns)"
| "ToNumber ns Null = Inr (num_lit ns 0)"
| "ToNumber ns (Bool b) = Inr (num_lit ns (if b then 1 else 0))"
| "ToNumber ns (Num n) = Inr n"
| "ToNumber ns (Str s) = Inr (num_parse ns s)"
| "ToNumber ns (Arr xs) = and_then (ToString ns (Arr xs)) (\<lambda>s. Inr (num_parse ns s))"
| "ToNumber ns (Obj kvs) = and_then (ToString ns (Obj kvs)) (\<lambda>s. Inr (num_parse ns s))"

fun is_Str :: "'n jsval \<Rightarrow> bool" where
  "is_Str (Str s) = True"
| "is_Str v = False"

text \<open>The binary \<^verbatim>\<open>+\<close>: string concatenation as soon as one primitive operand is a string,
  numeric addition otherwise.\<close>

definition js_plus :: "'n numbers \<Rightarrow> 'n jsval \<Rightarrow> 'n jsval \<Rightarrow> exn + 'n jsval" where
  "js_plus ns x y =
     and_then (ToPrimitive ns x) (\<lambda>lprim.
     and_then (ToPrimitive ns y) (\<lambda>rprim.
       if is_Str lprim \<or> is_Str rprim
       then and_then (ToString ns lprim) (\<lambda>l.
            and_then (ToString ns rprim) (\<lambda>r. Inr (Str (l @ r))))
       else and_then (ToNumber ns lprim) (\<lambda>l.
            and_then (ToNumber ns rprim) (\<lambda>r. Inr (Num (num_add ns l r))))))"

text \<open>The binary \<^verbatim>\<open>*\<close>: both operands go through \<^verbatim>\<open>ToNumber\<close>.\<close>

definition js_times :: "'n numbers \<Rightarrow> 'n jsval \<Rightarrow> 'n jsval \<Rightarrow> exn + 'n jsval" where
  "js_times ns x y =
     and_then (ToNumber ns x) (\<lambda>l.
     and_then (ToNumber ns y) (\<lambda>r. Inr (Num (num_mul ns l r))))"

text \<open>The global \<^verbatim>\<open>isNaN(v)\<close>: \<^verbatim>\<open>ToNumber\<close>, then the test.\<close>

definition isNaN :: "'n numbers \<Rightarrow> 'n jsval \<Rightarrow> exn + bool" where
  "isNaN ns v = and_then (ToNumber ns v) (\<lambda>n. Inr (num_is_nan ns n))"

text \<open>
  Property read \<^verbatim>\<open>v.k\<close>, for the property names the source reads (\<^verbatim>\<open>number\<close>, \<^verbatim>\<open>value\<close>,
  \<^verbatim>\<open>message\<close>), none of which a built-in prototype defines: reading from \<^verbatim>\<open>null\<close> or
  \<^verbatim>\<open>undefined\<close> throws, an object gives its own property, everything else gives
  \<^verbatim>\<open>undefined\<close>.
\<close>

fun get_prop :: "'n jsval \<Rightarrow> string \<Rightarrow> exn + 'n jsval" where
  "get_prop Undefined k =
     Inl (TypeError (''Cannot read properties of undefined (reading '' @ [CHR 0x27] @ k @ [CHR 0x27] @ '')''))"
| "get_prop Null k =
     Inl (TypeError (''Cannot read properties of null (reading '' @ [CHR 0x27] @ k @ [CHR 0x27] @ '')''))"
| "get_prop (Obj kvs) k = Inr (case map_of kvs k of Some v \<Rightarrow> v | None \<Rightarrow> Undefined)"
| "get_prop v k = Inr Undefined"

text \<open>
  The destructuring declaration \<^verbatim>\<open>const { k } = v\<close>, where \<open>source\<close> is the text of the
  initialiser \<open>v\<close> evaluates: \<^verbatim>\<open>undefined\<close> and \<^verbatim>\<open>null\<close> cannot be destructured (the
  message is the engine's, V8), an object gives its own property, everything else gives
  \<^verbatim>\<open>undefined\<close>.
\<close>

fun destructure :: "string \<Rightarrow> 'n jsval \<Rightarrow> string \<Rightarrow> exn + 'n jsval" where
  "destructure source Undefined k =
     Inl (TypeError (''Cannot destructure property '' @ [CHR 0x27] @ k @ [CHR 0x27] @ '' of '' @
                     [CHR 0x27] @ source @ [CHR 0x27] @ '' as it is undefined.''))"
| "destructure source Null k =
     Inl (TypeError (''Cannot destructure property '' @ [CHR 0x27] @ k @ [CHR 0x27] @ '' of '' @
                     [CHR 0x27] @ source @ [CHR 0x27] @ '' as it is null.''))"
| "destructure source (Obj kvs) k = Inr (case map_of kvs k of Some v \<Rightarrow> v | None \<Rightarrow> Undefined)"
| "destructure source v k = Inr Undefined"

text \<open>A template literal: literal text (\<open>Inl\<close>) and interpolated values (\<open>Inr\<close>), converted
  and concatenated from left to right.\<close>

fun template :: "'n numbers \<Rightarrow> (string + 'n jsval) list \<Rightarrow> exn + string" where
  "template ns [] = Inr ''''"
| "template ns (Inl s # ps) = and_then (template ns ps) (\<lambda>t. Inr (s @ t))"
| "template ns (Inr v # ps) =
     and_then (ToString ns v) (\<lambda>s. and_then (template ns ps) (\<lambda>t. Inr (s @ t)))"

section \<open>The durable step executor\<close>

text \<open>
  \<^verbatim>\<open>step.do\<close> and the workflow binding come from the platform
  (\<^verbatim>\<open>cloudflare:workers\<close>); the repository holds only their callers. The executor below
  is the one the specification describes (Run Ledger, Step Context, Retry Policy, Run
  Dispatcher). Real time is left out: the ledger keeps no timestamps and a retry does not
  wait. Storage is always available.
\<close>

type_synonym run_id = nat

text \<open>Modelled from the spec: the error taxonomy of the executor (section 7); the
  platform's own error types are not in the repository.\<close>

datatype failure =
    ValidationError string exn
  | StepFailed string exn
  | DuplicateStep string
  | StorageUnavailable
  | UnrecordedError exn

text \<open>Modelled from the spec: the Step Record (section 3). The recorded output is present
  iff the step Succeeded and the recorded error iff it Failed, so both travel with the
  status.\<close>

datatype 'n step_status =
    Pending
  | Succeeded "'n jsval"
  | Failed exn

record 'n step_record =
  attempts :: nat
  step_status :: "'n step_status"

text \<open>Modelled from the spec: the Run (section 3), its terminal result or error carried by
  the status.\<close>

datatype 'n run_status =
    Running
  | Completed "'n jsval"
  | RunFailed failure

record 'n run =
  workflow_name :: string
  run_input :: "'n jsval"
  run_status :: "'n run_status"

text \<open>
  Modelled from the spec: the persisted state (section 6), a Runs table keyed by run id and
  a Steps table keyed by (run id, step name). Two logs are added for the statements about
  the executor and are never read by it: \<open>declared\<close> lists every call of the Step Context
  and \<open>invoked\<close> every invocation of a step's compute function, in order.
\<close>

record 'n ledger =
  runs :: "run_id \<rightharpoonup> 'n run"
  steps :: "run_id \<times> string \<rightharpoonup> 'n step_record"
  next_run :: run_id
  declared :: "(run_id \<times> string) list"
  invoked :: "(run_id \<times> string) list"

text \<open>Modelled from the spec: the state before any run was created.\<close>

definition empty_ledger :: "'n ledger" where
  "empty_ledger = \<lparr>runs = Map.empty, steps = Map.empty, next_run = 0, declared = [], invoked = []\<rparr>"

subsection \<open>Run Ledger\<close>

text \<open>Modelled from the spec: \<open>createRun\<close> of the ledger contract (section 4.1), which the
  repository does not implement. The run gets the next free id and starts Running.\<close>

definition createRun :: "string \<Rightarrow> 'n jsval \<Rightarrow> 'n ledger \<Rightarrow> run_id \<times> 'n ledger" where
  "createRun workflowName input l =
     (next_run l,
      l\<lparr>runs := (runs l)(next_run l \<mapsto>
            \<lparr>workflow_name = workflowName, run_input = input, run_status = Running\<rparr>),
        next_run := Suc (next_run l)\<rparr>)"

text \<open>Modelled from the spec: \<open>loadRun\<close> of the ledger contract; \<open>None\<close> is NotFound.\<close>

definition loadRun :: "run_id \<Rightarrow> 'n ledger \<Rightarrow> 'n run option" where
  "loadRun rid l = runs l rid"

text \<open>Modelled from the spec: \<open>getStep\<close> of the ledger contract; \<open>None\<close> is Missing.\<close>

definition getStep :: "run_id \<Rightarrow> string \<Rightarrow> 'n ledger \<Rightarrow> 'n step_record option" where
  "getStep rid stepName l = steps l (rid, stepName)"

text \<open>Modelled from the spec: \<open>recordStepSuccess\<close> is idempotent; on an already Succeeded
  record it writes nothing and returns the output recorded first.\<close>

definition recordStepSuccess ::
  "run_id \<Rightarrow> string \<Rightarrow> 'n jsval \<Rightarrow> 'n ledger \<Rightarrow> 'n jsval \<times> 'n ledger" where
  "recordStepSuccess rid stepName output l =
     (case getStep rid stepName l of
        None \<Rightarrow>
          (output, l\<lparr>steps := (steps l)((rid, stepName) \<mapsto>
                      \<lparr>attempts = 1, step_status = Succeeded output\<rparr>)\<rparr>)
      | Some r \<Rightarrow>
          (case step_status r of
             Succeeded recorded \<Rightarrow> (recorded, l)
           | _ \<Rightarrow>
             (output, l\<lparr>steps := (steps l)((rid, stepName) \<mapsto>
                         r\<lparr>step_status := Succeeded output\<rparr>)\<rparr>)))"

text \<open>Modelled from the spec: \<open>recordStepFailure\<close> stores the error and the attempt count;
  a Succeeded record is immutable.\<close>

definition recordStepFailure ::
  "run_id \<Rightarrow> string \<Rightarrow> exn \<Rightarrow> nat \<Rightarrow> 'n ledger \<Rightarrow> 'n ledger" where
  "recordStepFailure rid stepName err attempt l =
     (case map_option step_status (getStep rid stepName l) of
        Some (Succeeded recorded) \<Rightarrow> l
      | _ \<Rightarrow>
          l\<lparr>steps := (steps l)((rid, stepName) \<mapsto>
               \<lparr>attempts = attempt, step_status = Failed err\<rparr>)\<rparr>)"

text \<open>Modelled from the spec: \<open>markRunTerminal\<close> of the ledger contract; a run goes from
  Running to a terminal status exactly once and is immutable afterwards.\<close>

definition markRunTerminal :: "run_id \<Rightarrow> 'n run_status \<Rightarrow> 'n ledger \<Rightarrow> 'n ledger" where
  "markRunTerminal rid status l =
     (case loadRun rid l of
        None \<Rightarrow> l
      | Some r \<Rightarrow>
          (if run_status r = Running then l\<lparr>runs := (runs l)(rid \<mapsto> r\<lparr>run_status := status\<rparr>)\<rparr>
           else l))"

subsection \<open>Retry Policy\<close>

text \<open>Modelled from the spec: the default policy (section 4.3): exponential backoff from a
  base delay, doubling per attempt, capped, up to a maximum attempt count; every error is
  retryable except one explicitly marked non-retryable.\<close>

record policy =
  max_attempts :: nat
  base_delay :: nat
  max_delay :: nat

text \<open>Modelled from the spec: the two answers of \<open>shouldRetry\<close>.\<close>

datatype decision = RetryAfter nat | GiveUp

text \<open>Modelled from the spec: an error is non-retryable only when it is explicitly marked
  so, which for a thrown value means being a \<open>NonRetryableError\<close>.\<close>

fun non_retryable :: "exn \<Rightarrow> bool" where
  "non_retryable (NonRetryableError m) = True"
| "non_retryable e = False"

text \<open>Modelled from the spec: \<open>shouldRetry(attempt, error)\<close> of the default policy.\<close>

definition shouldRetry :: "policy \<Rightarrow> nat \<Rightarrow> exn \<Rightarrow> decision" where
  "shouldRetry p attempt err =
     (if non_retryable err then GiveUp
      else if max_attempts p \<le> attempt then GiveUp
      else RetryAfter (min (base_delay p * 2 ^ (attempt - 1)) (max_delay p)))"

text \<open>Modelled from the spec: invoking compute under the policy. \<open>attempt\<close> is the number
  of the attempt being made; the result is the outcome and the number of the last attempt,
  so compute ran once per attempt from the first number to the last.\<close>

function under_policy :: "policy \<Rightarrow> (unit \<Rightarrow> exn + 'a) \<Rightarrow> nat \<Rightarrow> (exn + 'a) \<times> nat" where
  "under_policy p compute attempt =
     (case compute () of
        Inr v \<Rightarrow> (Inr v, attempt)
      | Inl err \<Rightarrow>
          (case shouldRetry p attempt err of
             GiveUp \<Rightarrow> (Inl err, attempt)
           | RetryAfter d \<Rightarrow> under_policy p compute (Suc attempt)))"
  by pat_completeness auto
termination
  by (relation "measure (\<lambda>(p, compute, attempt). max_attempts p - attempt)")
     (auto simp: shouldRetry_def split: if_splits)

declare under_policy.simps [simp del]

subsection \<open>Step Context\<close>

text \<open>
  Modelled from the spec: the Step Context's one operation (section 4.2), the stand-in for
  the platform's \<^verbatim>\<open>step.do\<close>. \<open>attempt_step\<close> invokes compute under the policy after \<open>made\<close>
  earlier attempts: the record is Pending while compute runs, then the outcome is recorded.
\<close>

definition attempt_step ::
  "policy \<Rightarrow> run_id \<Rightarrow> string \<Rightarrow> (unit \<Rightarrow> exn + 'n jsval) \<Rightarrow> nat \<Rightarrow> 'n ledger
     \<Rightarrow> (failure + 'n jsval) \<times> 'n ledger" where
  "attempt_step p rid stepName compute made l =
     (case under_policy p compute (Suc made) of
        (outcome, reached) \<Rightarrow>
          (let l1 = l\<lparr>steps := (steps l)((rid, stepName) \<mapsto>
                         \<lparr>attempts = reached, step_status = Pending\<rparr>),
                      invoked := invoked l @ replicate (reached - made) (rid, stepName)\<rparr>
           in case outcome of
                Inr output \<Rightarrow>
                  (case recordStepSuccess rid stepName output l1 of
                     (recorded, l2) \<Rightarrow> (Inr recorded, l2))
              | Inl err \<Rightarrow>
                  (Inl (StepFailed stepName err), recordStepFailure rid stepName err reached l1)))"

text \<open>Modelled from the spec: the algorithm of \<open>run(stepName, compute)\<close>, steps 1 to 5 of
  section 4.2. A record that Failed is retried only while the policy would still retry it;
  a record still Pending is a duplicate declaration.\<close>

definition step_do ::
  "policy \<Rightarrow> run_id \<Rightarrow> string \<Rightarrow> (unit \<Rightarrow> exn + 'n jsval) \<Rightarrow> 'n ledger
     \<Rightarrow> (failure + 'n jsval) \<times> 'n ledger" where
  "step_do p rid stepName compute l0 =
     (let l = l0\<lparr>declared := declared l0 @ [(rid, stepName)]\<rparr> in
      case getStep rid stepName l of
        None \<Rightarrow> attempt_step p rid stepName compute 0 l
      | Some r \<Rightarrow>
          (case step_status r of
             Succeeded output \<Rightarrow> (Inr output, l)
           | Pending \<Rightarrow> (Inl (DuplicateStep stepName), l)
           | Failed err \<Rightarrow>
               (case shouldRetry p (attempts r) err of
                  GiveUp \<Rightarrow> (Inl (StepFailed stepName err), l)
                | RetryAfter d \<Rightarrow> attempt_step p rid stepName compute (attempts r) l)))"

text \<open>The handle a workflow program receives as \<^verbatim>\<open>step\<close>: \<open>step name compute\<close> is
  \<^verbatim>\<open>await step.do(name, compute)\<close>. The first argument of a program is the input of the
  run, which the program receives as \<^verbatim>\<open>event.payload\<close>.\<close>

type_synonym 'n step_context =
  "string \<Rightarrow> (unit \<Rightarrow> exn + 'n jsval) \<Rightarrow> 'n ledger \<Rightarrow> (failure + 'n jsval) \<times> 'n ledger"

type_synonym 'n program =
  "'n jsval \<Rightarrow> 'n step_context \<Rightarrow> 'n ledger \<Rightarrow> (failure + 'n jsval) \<times> 'n ledger"

subsection \<open>Run Dispatcher\<close>

text \<open>Modelled from the spec: \<open>start(workflowName, input)\<close> of the dispatcher
  (section 4.4). It creates the run and leaves it Running: execution is scheduled, not
  awaited.\<close>

definition start :: "string \<Rightarrow> 'n jsval \<Rightarrow> 'n ledger \<Rightarrow> run_id \<times> 'n ledger" where
  "start workflowName input l = createRun workflowName input l"

text \<open>Modelled from the spec: one dispatch attempt for a run. It runs the program from its
  start against the ledger, on the input the run was created with, and marks the run
  terminal with what the program returned; a terminal run is left as it is.\<close>

definition drive :: "policy \<Rightarrow> 'n program \<Rightarrow> run_id \<Rightarrow> 'n ledger \<Rightarrow> 'n ledger" where
  "drive p program rid l =
     (case loadRun rid l of
        None \<Rightarrow> l
      | Some r \<Rightarrow>
          (case run_status r of
             Running \<Rightarrow>
               (case program (run_input r) (step_do p rid) l of
                  (Inr result, l') \<Rightarrow> markRunTerminal rid (Completed result) l'
                | (Inl f, l') \<Rightarrow> markRunTerminal rid (RunFailed f) l')
           | _ \<Rightarrow> l))"

text \<open>Modelled from the spec: \<open>status(RunID)\<close>; \<open>None\<close> for an unknown run.\<close>

definition status :: "run_id \<Rightarrow> 'n ledger \<Rightarrow> 'n run_status option" where
  "status rid l = map_option run_status (loadRun rid l)"

section \<open>The workflow program\<close>

text \<open>The string literals of the source, UTF-8 encoded. \<open>err_invalid_number\<close> is the
  message of the error step 1 throws; \<open>msg_step1\<close> to \<open>msg_step5\<close> are the fixed heads of the
  five step messages; \<open>times_sign\<close> is the multiplication sign between two blanks.\<close>

definition err_invalid_number :: string where
  "err_invalid_number =
     [CHR 0xE8, CHR 0xBE, CHR 0x93, CHR 0xE5, CHR 0x85, CHR 0xA5, CHR 0xE5, CHR 0xBF, CHR 0x85,
      CHR 0xE9, CHR 0xA1, CHR 0xBB, CHR 0xE6, CHR 0x98, CHR 0xAF, CHR 0xE6, CHR 0x9C, CHR 0x89,
      CHR 0xE6, CHR 0x95, CHR 0x88, CHR 0xE7, CHR 0x9A, CHR 0x84, CHR 0xE6, CHR 0x95, CHR 0xB0,
      CHR 0xE5, CHR 0xAD, CHR 0x97]"

definition step_word :: string where
  "step_word = [CHR 0xE6, CHR 0xAD, CHR 0xA5, CHR 0xE9, CHR 0xAA, CHR 0xA4]"

definition msg_step1 :: string where
  "msg_step1 =
     [CHR 0xE2, CHR 0x9C, CHR 0x85] @ '' '' @ step_word @ ''1: '' @
     [CHR 0xE9, CHR 0xAA, CHR 0x8C, CHR 0xE8, CHR 0xAF, CHR 0x81, CHR 0xE6, CHR 0x88, CHR 0x90,
      CHR 0xE5, CHR 0x8A, CHR 0x9F, CHR 0xEF, CHR 0xBC, CHR 0x8C, CHR 0xE8, CHR 0xBE, CHR 0x93,
      CHR 0xE5, CHR 0x85, CHR 0xA5, CHR 0xE5, CHR 0x80, CHR 0xBC, CHR 0xE4, CHR 0xB8, CHR 0xBA] @ '' ''"

definition msg_step2 :: string where
  "msg_step2 = [CHR 0xE2, CHR 0x9E, CHR 0x95] @ '' '' @ step_word @ ''2: ''"

definition msg_step3 :: string where
  "msg_step3 =
     [CHR 0xE2, CHR 0x9C, CHR 0x96, CHR 0xEF, CHR 0xB8, CHR 0x8F] @ '' '' @ step_word @ ''3: ''"

definition msg_step4 :: string where
  "msg_step4 =
     [CHR 0xE2, CHR 0x9C, CHR 0x96, CHR 0xEF, CHR 0xB8, CHR 0x8F] @ '' '' @ step_word @ ''4: ''"

definition msg_step5 :: string where
  "msg_step5 =
     [CHR 0xF0, CHR 0x9F, CHR 0x8E, CHR 0xAF] @ '' '' @ step_word @ ''5: '' @
     [CHR 0xE6, CHR 0x9C, CHR 0x80, CHR 0xE7, CHR 0xBB, CHR 0x88, CHR 0xE7, CHR 0xBB, CHR 0x93,
      CHR 0xE6, CHR 0x9E, CHR 0x9C] @ '' = ''"

definition times_sign :: string where
  "times_sign = '' '' @ [CHR 0xC3, CHR 0x97] @ '' ''"

text \<open>
  The five compute closures of \<^verbatim>\<open>MyWorkflow.run\<close>, in source order. Each is the body of
  the \<^verbatim>\<open>async () => {...}\<close> passed to \<^verbatim>\<open>step.do\<close>; \<^verbatim>\<open>console.log\<close> is left out.
  \<open>number\<close> is \<^verbatim>\<open>event.payload.params.number\<close>, \<open>now\<close> what
  \<^verbatim>\<open>new Date().toISOString()\<close> returns when step 5 runs.
\<close>

definition step1_validate :: "'n numbers \<Rightarrow> 'n jsval \<Rightarrow> unit \<Rightarrow> exn + 'n jsval" where
  "step1_validate ns number = (\<lambda>_.
     if typeof number \<noteq> ''number'' then Inl (Error err_invalid_number)
     else and_then (isNaN ns number) (\<lambda>nan.
       if nan then Inl (Error err_invalid_number)
       else and_then (template ns [Inl msg_step1, Inr number]) (\<lambda>m.
         Inr (Obj [(''validated'', Bool True), (''value'', number), (''message'', Str m)]))))"

definition step2_add_one :: "'n numbers \<Rightarrow> 'n jsval \<Rightarrow> unit \<Rightarrow> exn + 'n jsval" where
  "step2_add_one ns step1Result = (\<lambda>_.
     and_then (get_prop step1Result ''value'') (\<lambda>value1.
     and_then (js_plus ns value1 (Num (num_lit ns 1))) (\<lambda>result.
     and_then (template ns [Inl msg_step2, Inr value1, Inl '' + 1 = '', Inr result]) (\<lambda>m.
       Inr (Obj [(''value'', result), (''message'', Str m)])))))"

definition step3_multiply_two :: "'n numbers \<Rightarrow> 'n jsval \<Rightarrow> unit \<Rightarrow> exn + 'n jsval" where
  "step3_multiply_two ns step2Result = (\<lambda>_.
     and_then (get_prop step2Result ''value'') (\<lambda>value2.
     and_then (js_times ns value2 (Num (num_lit ns 2))) (\<lambda>result.
     and_then (template ns [Inl msg_step3, Inr value2, Inl (times_sign @ ''2 = ''), Inr result]) (\<lambda>m.
       Inr (Obj [(''value'', result), (''message'', Str m)])))))"

definition step4_multiply_three :: "'n numbers \<Rightarrow> 'n jsval \<Rightarrow> unit \<Rightarrow> exn + 'n jsval" where
  "step4_multiply_three ns step3Result = (\<lambda>_.
     and_then (get_prop step3Result ''value'') (\<lambda>value3.
     and_then (js_times ns value3 (Num (num_lit ns 3))) (\<lambda>result.
     and_then (template ns [Inl msg_step4, Inr value3, Inl (times_sign @ ''3 = ''), Inr result]) (\<lambda>m.
       Inr (Obj [(''value'', result), (''message'', Str m)])))))"

definition step5_finalize ::
  "'n numbers \<Rightarrow> string \<Rightarrow> 'n jsval \<Rightarrow> 'n jsval \<Rightarrow> 'n jsval \<Rightarrow> 'n jsval \<Rightarrow> 'n jsval
     \<Rightarrow> unit \<Rightarrow> exn + 'n jsval" where
  "step5_finalize ns now number step1Result step2Result step3Result step4Result = (\<lambda>_.
     and_then (get_prop step4Result ''value'') (\<lambda>value4.
     and_then (template ns [Inl ''(('', Inr number,
                            Inl ('' + 1)'' @ times_sign @ ''2)'' @ times_sign @ ''3 = ''),
                            Inr value4]) (\<lambda>formula.
     and_then (get_prop step1Result ''message'') (\<lambda>message1.
     and_then (get_prop step2Result ''message'') (\<lambda>message2.
     and_then (get_prop step3Result ''message'') (\<lambda>message3.
     and_then (get_prop step4Result ''message'') (\<lambda>message4.
     and_then (template ns [Inl msg_step5, Inr value4]) (\<lambda>message5.
       Inr (Obj [(''success'', Bool True),
                 (''originalNumber'', number),
                 (''finalResult'', value4),
                 (''formula'', Str formula),
                 (''timestamp'', Str now),
                 (''steps'', Arr [message1, message2, message3, message4, Str message5])])))))))))"

text \<open>
  \<^verbatim>\<open>MyWorkflow.run(event, step)\<close> from the value of \<^verbatim>\<open>event.payload.params\<close> on: \<open>params\<close> is
  that value, which the first statement destructures. The five \<^verbatim>\<open>await step.do(...)\<close>
  follow one another; a rejected \<^verbatim>\<open>step.do\<close> is not caught and ends the run. An exception
  outside any step (the destructuring of \<open>params\<close>) has no step to be attributed to.
\<close>

definition MyWorkflow_run ::
  "'n numbers \<Rightarrow> string \<Rightarrow> 'n jsval \<Rightarrow> 'n step_context \<Rightarrow> 'n ledger \<Rightarrow>
   (failure + 'n jsval) \<times> 'n ledger" where
  "MyWorkflow_run ns now params step l =
     (case destructure ''event.payload.params'' params ''number'' of
        Inl e \<Rightarrow> (Inl (UnrecordedError e), l)
      | Inr number \<Rightarrow>
     (case step ''step1-validate'' (step1_validate ns number) l of
        (Inl f, l1) \<Rightarrow> (Inl f, l1)
      | (Inr step1Result, l1) \<Rightarrow>
     (case step ''step2-add-one'' (step2_add_one ns step1Result) l1 of
        (Inl f, l2) \<Rightarrow> (Inl f, l2)
      | (Inr step2Result, l2) \<Rightarrow>
     (case step ''step3-multiply-two'' (step3_multiply_two ns step2Result) l2 of
        (Inl f, l3) \<Rightarrow> (Inl f, l3)
      | (Inr step3Result, l3) \<Rightarrow>
     (case step ''step4-multiply-three'' (step4_multiply_three ns step3Result) l3 of
        (Inl f, l4) \<Rightarrow> (Inl f, l4)
      | (Inr step4Result, l4) \<Rightarrow>
        step ''step5-finalize''
          (step5_finalize ns now number step1Result step2Result step3Result step4Result) l4)))))"

text \<open>
  \<^verbatim>\<open>MyWorkflow.run(event, step)\<close> as the platform calls it, from the event on: \<open>payload\<close> is
  \<^verbatim>\<open>event.payload\<close>. The class is declared over \<^verbatim>\<open>WorkflowEvent<WorkflowParams>\<close> with
  \<^verbatim>\<open>interface WorkflowParams { number: number }\<close>: the payload of an event is the value
  that was given as \<^verbatim>\<open>params\<close> when the instance was created. The first statement reads
  the property \<^verbatim>\<open>params\<close> of that payload and destructures what it finds.
\<close>

definition MyWorkflow_run_event :: "'n numbers \<Rightarrow> string \<Rightarrow> 'n program" where
  "MyWorkflow_run_event ns now payload step l =
     (case get_prop payload ''params'' of
        Inl e \<Rightarrow> (Inl (UnrecordedError e), l)
      | Inr params \<Rightarrow> MyWorkflow_run ns now params step l)"

section \<open>The worker\<close>

text \<open>
  A request as the handler reads it: method, \<^verbatim>\<open>new URL(request.url).pathname\<close>, and the
  outcome of \<^verbatim>\<open>await request.json()\<close> (the parsed body, or what reading or parsing threw).
  A response is its status, headers and body; a JSON body is the value handed to
  \<^verbatim>\<open>JSON.stringify\<close>.
\<close>

record 'n request =
  req_method :: string
  req_pathname :: string
  req_json :: "exn + 'n jsval"

datatype 'n body = NoBody | JsonBody "'n jsval" | TextBody string

record 'n response =
  resp_status :: nat
  resp_headers :: "(string \<times> string) list"
  resp_body :: "'n body"

text \<open>
  The bindings of \<^verbatim>\<open>Env\<close>. \<^verbatim>\<open>MY_WORKFLOW.create\<close> belongs to the platform: it is a
  parameter, a function of the options object on the platform's state \<open>'w\<close> that resolves
  to the instance id or rejects. \<^verbatim>\<open>__STATIC_CONTENT.get\<close> is the key-value read of an
  asset.
\<close>

record ('n, 'w) env =
  MY_WORKFLOW_create :: "'n jsval \<Rightarrow> 'w \<Rightarrow> (exn + string) \<times> 'w"
  STATIC_CONTENT_get :: "string \<Rightarrow> string option"

definition corsHeaders :: "(string \<times> string) list" where
  "corsHeaders =
     [(''Access-Control-Allow-Origin'', ''*''),
      (''Access-Control-Allow-Methods'', ''GET, POST, OPTIONS''),
      (''Access-Control-Allow-Headers'', ''Content-Type'')]"

definition workflow_status_text :: string where
  "workflow_status_text =
     ''Workflow'' @
     [CHR 0xE5, CHR 0xB7, CHR 0xB2, CHR 0xE5, CHR 0x9C, CHR 0xA8, CHR 0xE5, CHR 0x90, CHR 0x8E,
      CHR 0xE5, CHR 0x8F, CHR 0xB0, CHR 0xE5, CHR 0xBC, CHR 0x82, CHR 0xE6, CHR 0xAD, CHR 0xA5,
      CHR 0xE6, CHR 0x89, CHR 0xA7, CHR 0xE8, CHR 0xA1, CHR 0x8C]"

text \<open>The result the handler computes inline, right after creating the instance
  (\<^verbatim>\<open>step1\<close>, \<^verbatim>\<open>step2\<close>, \<^verbatim>\<open>step3\<close> and the object literal \<^verbatim>\<open>finalResult\<close>); \<open>number\<close> is
  \<^verbatim>\<open>body.number\<close>.\<close>

definition inline_result :: "'n numbers \<Rightarrow> string \<Rightarrow> 'n jsval \<Rightarrow> exn + 'n jsval" where
  "inline_result ns now number =
     and_then (js_plus ns number (Num (num_lit ns 1))) (\<lambda>step1.
     and_then (js_times ns step1 (Num (num_lit ns 2))) (\<lambda>step2.
     and_then (js_times ns step2 (Num (num_lit ns 3))) (\<lambda>step3.
     and_then (template ns [Inl ''(('', Inr number,
                            Inl ('' + 1)'' @ times_sign @ ''2)'' @ times_sign @ ''3 = ''),
                            Inr step3]) (\<lambda>formula.
     and_then (template ns [Inl msg_step1, Inr number]) (\<lambda>message1.
     and_then (template ns [Inl msg_step2, Inr number, Inl '' + 1 = '', Inr step1]) (\<lambda>message2.
     and_then (template ns [Inl msg_step3, Inr step1, Inl (times_sign @ ''2 = ''), Inr step2]) (\<lambda>message3.
     and_then (template ns [Inl msg_step4, Inr step2, Inl (times_sign @ ''3 = ''), Inr step3]) (\<lambda>message4.
     and_then (template ns [Inl msg_step5, Inr step3]) (\<lambda>message5.
       Inr (Obj [(''success'', Bool True),
                 (''originalNumber'', number),
                 (''finalResult'', step3),
                 (''formula'', Str formula),
                 (''timestamp'', Str now),
                 (''steps'', Arr [Str message1, Str message2, Str message3, Str message4,
                                  Str message5]),
                 (''workflowStatus'', Str workflow_status_text)]))))))))))"

text \<open>The \<^verbatim>\<open>catch\<close> block: HTTP 500 with the thrown error's message.\<close>

definition error_response :: "exn \<Rightarrow> 'n response" where
  "error_response error =
     \<lparr>resp_status = 500,
      resp_headers = (''Content-Type'', ''application/json'') # corsHeaders,
      resp_body = JsonBody (Obj [(''error'', Str (message error))])\<rparr>"

text \<open>
  The \<^verbatim>\<open>try\<close> block of the process route, the same text in both workers: parse the body,
  create the workflow instance with \<^verbatim>\<open>{params: {number: body.number}}\<close> (the argument is
  evaluated before the call), compute the result inline, answer \<^verbatim>\<open>completed\<close>. Whatever
  throws on the way lands in the \<^verbatim>\<open>catch\<close> block.
\<close>

definition process_request ::
  "'n numbers \<Rightarrow> string \<Rightarrow> ('n, 'w) env \<Rightarrow> 'n request \<Rightarrow> 'w \<Rightarrow> 'n response \<times> 'w" where
  "process_request ns now env request w =
     (case req_json request of
        Inl error \<Rightarrow> (error_response error, w)
      | Inr body \<Rightarrow>
     (case get_prop body ''number'' of
        Inl error \<Rightarrow> (error_response error, w)
      | Inr number \<Rightarrow>
     (case MY_WORKFLOW_create env (Obj [(''params'', Obj [(''number'', number)])]) w of
        (Inl error, w') \<Rightarrow> (error_response error, w')
      | (Inr instance_id, w') \<Rightarrow>
     (case inline_result ns now number of
        Inl error \<Rightarrow> (error_response error, w')
      | Inr finalResult \<Rightarrow>
          (\<lparr>resp_status = 200,
            resp_headers = (''Content-Type'', ''application/json'') # corsHeaders,
            resp_body = JsonBody (Obj [(''workflowId'', Str instance_id),
                                       (''status'', Str ''completed''),
                                       (''result'', finalResult)])\<rparr>, w')))))"

text \<open>Truthiness of a value that is a string, \<^verbatim>\<open>undefined\<close> or \<^verbatim>\<open>null\<close> (a manifest entry,
  an asset read): only a non-empty string is truthy.\<close>

fun truthy :: "string option \<Rightarrow> bool" where
  "truthy None = False"
| "truthy (Some s) = (s \<noteq> [])"

definition endsWith :: "string \<Rightarrow> string \<Rightarrow> bool" where
  "endsWith s sfx = (length sfx \<le> length s \<and> drop (length s - length sfx) s = sfx)"

definition contentType_of :: "string \<Rightarrow> string" where
  "contentType_of path =
     (if endsWith path ''.html'' then ''text/html''
      else if endsWith path ''.js'' then ''application/javascript''
      else if endsWith path ''.css'' then ''text/css''
      else if endsWith path ''.svg'' then ''image/svg+xml''
      else if endsWith path ''.png'' then ''image/png''
      else if endsWith path ''.jpg'' \<or> endsWith path ''.jpeg'' then ''image/jpeg''
      else ''text/plain'')"

text \<open>\<^verbatim>\<open>handleStaticAssets\<close>: the asset of the path, else \<^verbatim>\<open>index.html\<close> for the
  single-page application, else 404. \<open>assetManifest\<close> is the parsed module-level manifest.
  The function reads the asset store and leaves the state of the workflow platform as it
  is.\<close>

definition handleStaticAssets ::
  "(string \<rightharpoonup> string) \<Rightarrow> ('n, 'w) env \<Rightarrow> 'n request \<Rightarrow> 'w \<Rightarrow> 'n response \<times> 'w" where
  "handleStaticAssets assetManifest env request w =
     (let pathname = (if req_pathname request = ''/'' then ''/index.html''
                      else req_pathname request);
          path = drop 1 pathname;
          assetKey = (if truthy (assetManifest path) then assetManifest path
                      else assetManifest pathname);
          asset = (case assetKey of Some k \<Rightarrow> STATIC_CONTENT_get env k | None \<Rightarrow> None);
          indexKey = assetManifest ''index.html'';
          indexAsset = (case indexKey of Some k \<Rightarrow> STATIC_CONTENT_get env k | None \<Rightarrow> None)
      in if truthy assetKey \<and> truthy asset then
           (\<lparr>resp_status = 200,
             resp_headers = [(''Content-Type'', contentType_of path),
                             (''Cache-Control'', ''public, max-age=31536000'')],
             resp_body = TextBody (case asset of Some a \<Rightarrow> a | None \<Rightarrow> [])\<rparr>, w)
         else if truthy indexKey \<and> truthy indexAsset then
           (\<lparr>resp_status = 200,
             resp_headers = [(''Content-Type'', ''text/html'')],
             resp_body = TextBody (case indexAsset of Some a \<Rightarrow> a | None \<Rightarrow> [])\<rparr>, w)
         else (\<lparr>resp_status = 404, resp_headers = [], resp_body = TextBody ''Not Found''\<rparr>, w))"

text \<open>\<^verbatim>\<open>handleRequest\<close>, the \<^verbatim>\<open>fetch\<close> handler of the combined worker.\<close>

definition handleRequest ::
  "'n numbers \<Rightarrow> string \<Rightarrow> (string \<rightharpoonup> string) \<Rightarrow> ('n, 'w) env \<Rightarrow> 'n request \<Rightarrow> 'w
     \<Rightarrow> 'n response \<times> 'w" where
  "handleRequest ns now assetManifest env request w =
     (if req_method request = ''OPTIONS'' then
        (\<lparr>resp_status = 200, resp_headers = corsHeaders, resp_body = NoBody\<rparr>, w)
      else if req_pathname request = ''/api/process'' \<and> req_method request = ''POST'' then
        process_request ns now env request w
      else handleStaticAssets assetManifest env request w)"

definition api_description :: string where
  "api_description =
     [CHR 0xE5, CHR 0xA4, CHR 0x84, CHR 0xE7, CHR 0x90, CHR 0x86, CHR 0xE8, CHR 0xAF, CHR 0xB7,
      CHR 0xE6, CHR 0xB1, CHR 0x82, CHR 0xE5, CHR 0xB9, CHR 0xB6, CHR 0xE8, CHR 0xBF, CHR 0x90,
      CHR 0xE8, CHR 0xA1, CHR 0x8C] @ ''Workflow''"

text \<open>\<^verbatim>\<open>fetch\<close> of the API-only worker (the separated deployment): the root path describes
  the API, the process route is \<^verbatim>\<open>/process\<close>, everything else is 404.\<close>

definition fetch ::
  "'n numbers \<Rightarrow> string \<Rightarrow> ('n, 'w) env \<Rightarrow> 'n request \<Rightarrow> 'w \<Rightarrow> 'n response \<times> 'w" where
  "fetch ns now env request w =
     (if req_method request = ''OPTIONS'' then
        (\<lparr>resp_status = 200, resp_headers = corsHeaders, resp_body = NoBody\<rparr>, w)
      else if req_pathname request = ''/'' then
        (\<lparr>resp_status = 200,
          resp_headers = (''Content-Type'', ''application/json'') # corsHeaders,
          resp_body = JsonBody (Obj [(''message'', Str ''Worker + Workflow API''),
                                     (''endpoints'',
                                      Obj [(''POST /process'', Str api_description)])])\<rparr>, w)
      else if req_pathname request = ''/process'' \<and> req_method request = ''POST'' then
        process_request ns now env request w
      else (\<lparr>resp_status = 404, resp_headers = corsHeaders, resp_body = TextBody ''Not Found''\<rparr>,
            w))"

section \<open>The worker on the executor\<close>

text \<open>Decimal digits of a natural number.\<close>

fun show_nat :: "nat \<Rightarrow> string" where
  "show_nat n =
     (if n < 10 then [''0123456789'' ! n]
      else show_nat (n div 10) @ [''0123456789'' ! (n mod 10)])"

declare show_nat.simps [simp del]

text \<open>Modelled from the spec: the opaque run id as the string handed to the caller.\<close>

definition instance_id :: "run_id \<Rightarrow> string" where
  "instance_id rid = ''run-'' @ show_nat rid"

text \<open>
  Modelled from the spec: \<open>StartRun\<close> behind the workflow binding (section 6). Creating an
  instance starts a run of the workflow named \<^verbatim>\<open>calc\<close> whose input is \<^verbatim>\<open>options.params\<close>,
  the value the program will receive as \<^verbatim>\<open>event.payload\<close>, and resolves to the run's id;
  the run is driven later, by the dispatcher.
\<close>

definition StartRun :: "'n jsval \<Rightarrow> 'n ledger \<Rightarrow> (exn + string) \<times> 'n ledger" where
  "StartRun options l =
     (case get_prop options ''params'' of
        Inl e \<Rightarrow> (Inl e, l)
      | Inr params \<Rightarrow>
          (case start ''calc'' params l of (rid, l') \<Rightarrow> (Inr (instance_id rid), l')))"

text \<open>The bindings of a worker deployed on the executor, with an empty asset store.\<close>

definition executor_env :: "('n, 'n ledger) env" where
  "executor_env = \<lparr>MY_WORKFLOW_create = StartRun, STATIC_CONTENT_get = (\<lambda>k. None)\<rparr>"

section \<open>Numbers for evaluation: the safe integers\<close>

text \<open>
  On the integers of magnitude below \<open>2 ^ 53\<close> the double arithmetic of JavaScript is exact
  integer arithmetic and a number prints as its decimal digits. \<open>safe_integers\<close> is that
  fragment: integers with exact \<open>+\<close> and \<open>*\<close>, and \<open>NaN\<close>. It reads a string as a number when
  the string is an optionally signed run of decimal digits (the empty string is \<open>0\<close>) and
  as \<open>NaN\<close> otherwise; fractions, exponents, hexadecimal literals, surrounding blanks and
  the infinities lie outside the fragment, as do integers beyond the safe range.
\<close>

datatype safe_number = Integer int | NaN

fun safe_add :: "safe_number \<Rightarrow> safe_number \<Rightarrow> safe_number" where
  "safe_add (Integer a) (Integer b) = Integer (a + b)"
| "safe_add a b = NaN"

fun safe_mul :: "safe_number \<Rightarrow> safe_number \<Rightarrow> safe_number" where
  "safe_mul (Integer a) (Integer b) = Integer (a * b)"
| "safe_mul a b = NaN"

fun safe_is_nan :: "safe_number \<Rightarrow> bool" where
  "safe_is_nan NaN = True"
| "safe_is_nan (Integer a) = False"

fun safe_show :: "safe_number \<Rightarrow> string" where
  "safe_show NaN = ''NaN''"
| "safe_show (Integer a) = (if a < 0 then ''-'' @ show_nat (nat (- a)) else show_nat (nat a))"

definition digit_value :: "char \<Rightarrow> nat option" where
  "digit_value c =
     (let code = (of_char c :: nat)
      in if 48 \<le> code \<and> code \<le> 57 then Some (code - 48) else None)"

fun read_digits :: "nat \<Rightarrow> string \<Rightarrow> nat option" where
  "read_digits acc [] = Some acc"
| "read_digits acc (c # cs) =
     (case digit_value c of None \<Rightarrow> None | Some d \<Rightarrow> read_digits (10 * acc + d) cs)"

fun safe_parse :: "string \<Rightarrow> safe_number" where
  "safe_parse [] = Integer 0"
| "safe_parse (c # cs) =
     (if c = CHR ''-'' \<and> cs \<noteq> [] then
        (case read_digits 0 cs of None \<Rightarrow> NaN | Some n \<Rightarrow> Integer (- int n))
      else if c = CHR ''+'' \<and> cs \<noteq> [] then
        (case read_digits 0 cs of None \<Rightarrow> NaN | Some n \<Rightarrow> Integer (int n))
      else (case read_digits 0 (c # cs) of None \<Rightarrow> NaN | Some n \<Rightarrow> Integer (int n)))"

definition safe_integers :: "safe_number numbers" where
  "safe_integers =
     \<lparr>num_add = safe_add, num_mul = safe_mul, num_lit = (\<lambda>n. Integer (int n)),
      num_nan = NaN, num_is_nan = safe_is_nan, num_show = safe_show, num_parse = safe_parse\<rparr>"

section \<open>Auxiliary definitions for the statements\<close>

text \<open>The step names of \<^verbatim>\<open>MyWorkflow.run\<close> in program order, and a run no step of which
  has a record yet.\<close>

definition step_names :: "string list" where
  "step_names = [''step1-validate'', ''step2-add-one'', ''step3-multiply-two'',
                 ''step4-multiply-three'', ''step5-finalize'']"

definition fresh_run :: "run_id \<Rightarrow> 'n ledger \<Rightarrow> bool" where
  "fresh_run rid l = (\<forall>name \<in> set step_names. getStep rid name l = None)"

text \<open>What the five closures return on a number \<open>n\<close> that passes validation (lemmas
  \<open>step1_valid\<close> to \<open>step5_valid\<close>).\<close>

definition step1_output :: "'n numbers \<Rightarrow> 'n \<Rightarrow> 'n jsval" where
  "step1_output ns n =
     Obj [(''validated'', Bool True), (''value'', Num n),
          (''message'', Str (msg_step1 @ num_show ns n))]"

definition step2_output :: "'n numbers \<Rightarrow> 'n \<Rightarrow> 'n jsval" where
  "step2_output ns n =
     Obj [(''value'', Num (num_add ns n (num_lit ns 1))),
          (''message'', Str (msg_step2 @ num_show ns n @ '' + 1 = '' @
                             num_show ns (num_add ns n (num_lit ns 1))))]"

definition step3_output :: "'n numbers \<Rightarrow> 'n \<Rightarrow> 'n jsval" where
  "step3_output ns n =
     Obj [(''value'', Num (num_mul ns (num_add ns n (num_lit ns 1)) (num_lit ns 2))),
          (''message'', Str (msg_step3 @ num_show ns (num_add ns n (num_lit ns 1)) @
                             times_sign @ ''2 = '' @
                             num_show ns (num_mul ns (num_add ns n (num_lit ns 1)) (num_lit ns 2))))]"

definition step4_output :: "'n numbers \<Rightarrow> 'n \<Rightarrow> 'n jsval" where
  "step4_output ns n =
     Obj [(''value'', Num (num_mul ns (num_mul ns (num_add ns n (num_lit ns 1)) (num_lit ns 2)) (num_lit ns 3))),
          (''message'', Str (msg_step4 @ num_show ns (num_mul ns (num_add ns n (num_lit ns 1)) (num_lit ns 2)) @
                             times_sign @ ''3 = '' @
                             num_show ns (num_mul ns (num_mul ns (num_add ns n (num_lit ns 1)) (num_lit ns 2)) (num_lit ns 3))))]"

definition final_output :: "'n numbers \<Rightarrow> string \<Rightarrow> 'n \<Rightarrow> 'n jsval" where
  "final_output ns now n =
     Obj [(''success'', Bool True),
          (''originalNumber'', Num n),
          (''finalResult'', Num (num_mul ns (num_mul ns (num_add ns n (num_lit ns 1)) (num_lit ns 2)) (num_lit ns 3))),
          (''formula'', Str (''(('' @ num_show ns n @ '' + 1)'' @ times_sign @ ''2)'' @ times_sign @ ''3 = '' @
                 num_show ns (num_mul ns (num_mul ns (num_add ns n (num_lit ns 1)) (num_lit ns 2)) (num_lit ns 3)))),
          (''timestamp'', Str now),
          (''steps'', Arr [Str (msg_step1 @ num_show ns n),
                           Str (msg_step2 @ num_show ns n @ '' + 1 = '' @ num_show ns (num_add ns n (num_lit ns 1))),
                           Str (msg_step3 @ num_show ns (num_add ns n (num_lit ns 1)) @ times_sign @ ''2 = '' @
                             num_show ns (num_mul ns (num_add ns n (num_lit ns 1)) (num_lit ns 2))),
                           Str (msg_step4 @ num_show ns (num_mul ns (num_add ns n (num_lit ns 1)) (num_lit ns 2)) @
                             times_sign @ ''3 = '' @
                             num_show ns (num_mul ns (num_mul ns (num_add ns n (num_lit ns 1)) (num_lit ns 2)) (num_lit ns 3))),
                           Str (msg_step5 @ num_show ns (num_mul ns (num_mul ns (num_add ns n (num_lit ns 1)) (num_lit ns 2)) (num_lit ns 3)))])]"

text \<open>The ledger after a step without a record has succeeded at its first attempt, and
  after the five steps of a valid run have.\<close>

definition after_success :: "run_id \<Rightarrow> string \<Rightarrow> 'n jsval \<Rightarrow> 'n ledger \<Rightarrow> 'n ledger" where
  "after_success rid name v l =
     l\<lparr>steps := (steps l)((rid, name) \<mapsto> \<lparr>attempts = 1, step_status = Succeeded v\<rparr>),
       declared := declared l @ [(rid, name)],
       invoked := invoked l @ [(rid, name)]\<rparr>"

definition after_valid_run :: "'n numbers \<Rightarrow> string \<Rightarrow> run_id \<Rightarrow> 'n \<Rightarrow> 'n ledger \<Rightarrow> 'n ledger" where
  "after_valid_run ns now rid n l =
     after_success rid ''step5-finalize'' (final_output ns now n)
       (after_success rid ''step4-multiply-three'' (step4_output ns n)
         (after_success rid ''step3-multiply-two'' (step3_output ns n)
           (after_success rid ''step2-add-one'' (step2_output ns n)
             (after_success rid ''step1-validate'' (step1_output ns n) l))))"

text \<open>Reading a response: the JSON value of a body, and a field of an object
  (\<open>Undefined\<close> where the read would throw).\<close>

fun json_of :: "'n body \<Rightarrow> 'n jsval" where
  "json_of (JsonBody v) = v"
| "json_of b = Undefined"

definition field :: "'n jsval \<Rightarrow> string \<Rightarrow> 'n jsval" where
  "field v k = (case get_prop v k of Inr x \<Rightarrow> x | Inl e \<Rightarrow> Undefined)"

text \<open>A request to the process route of the combined worker with the parsed body \<open>body\<close>.\<close>

definition post_process :: "'n jsval \<Rightarrow> 'n request" where
  "post_process body =
     \<lparr>req_method = ''POST'', req_pathname = ''/api/process'', req_json = Inr body\<rparr>"

text \<open>\<^verbatim>\<open>Number.isSafeInteger\<close>: the integers on which \<open>safe_integers\<close> is the arithmetic of
  JavaScript.\<close>

definition is_safe :: "int \<Rightarrow> bool" where
  "is_safe z = (\<bar>z\<bar> < 2 ^ 53)"

text \<open>The test of step 1, \<^verbatim>\<open>typeof number === 'number' && !isNaN(number)\<close>, as a predicate.\<close>

fun valid_number :: "'n numbers \<Rightarrow> 'n jsval \<Rightarrow> bool" where
  "valid_number ns (Num n) = (\<not> num_is_nan ns n)"
| "valid_number ns v = False"

text \<open>The ledger after a step without a record has failed for good with the error \<open>e\<close>,
  after \<open>k\<close> attempts.\<close>

definition after_failure :: "run_id \<Rightarrow> string \<Rightarrow> exn \<Rightarrow> nat \<Rightarrow> 'n ledger \<Rightarrow> 'n ledger" where
  "after_failure rid name e k l =
     l\<lparr>steps := (steps l)((rid, name) \<mapsto> \<lparr>attempts = k, step_status = Failed e\<rparr>),
       declared := declared l @ [(rid, name)],
       invoked := invoked l @ replicate k (rid, name)\<rparr>"

text \<open>The primitive values: everything but arrays and objects.\<close>

fun is_primitive :: "'n jsval \<Rightarrow> bool" where
  "is_primitive (Arr xs) = False"
| "is_primitive (Obj kvs) = False"
| "is_primitive v = True"

text \<open>A run that ended Failed by a \<^verbatim>\<open>TypeError\<close> thrown outside any step.\<close>

fun threw_TypeError_outside_steps :: "'n run_status option \<Rightarrow> bool" where
  "threw_TypeError_outside_steps (Some (RunFailed (UnrecordedError (TypeError m)))) = True"
| "threw_TypeError_outside_steps s = False"

text \<open>The property names \<^verbatim>\<open>JSON.stringify\<close> writes for an object: a property whose value is
  \<^verbatim>\<open>undefined\<close> is left out.\<close>

fun stringified_keys :: "'n jsval \<Rightarrow> string list" where
  "stringified_keys (Obj kvs) = map fst (filter (\<lambda>(k, v). v \<noteq> Undefined) kvs)"
| "stringified_keys v = []"

section \<open>Properties of the model\<close>

subsection \<open>Retry loop, closures and single steps\<close>

lemma under_policy_success: "compute () = Inr v \<Longrightarrow> under_policy p compute a = (Inr v, a)"
  by (simp add: under_policy.simps)

lemma under_policy_failure:
  "compute () = Inl e \<Longrightarrow>
   under_policy p compute a =
     (Inl e, if non_retryable e \<or> max_attempts p \<le> a then a else max_attempts p)"
proof (induction p compute a rule: under_policy.induct)
  case (1 p compute attempt)
  show ?case
  proof (cases "shouldRetry p attempt e")
    case GiveUp
    then show ?thesis using "1.prems"
      by (subst under_policy.simps) (auto simp: shouldRetry_def split: if_splits)
  next
    case (RetryAfter d)
    then have nr: "\<not> non_retryable e" and lt: "attempt < max_attempts p"
      by (auto simp: shouldRetry_def split: if_splits)
    have "under_policy p compute (Suc attempt) =
            (Inl e, if non_retryable e \<or> max_attempts p \<le> Suc attempt then Suc attempt
                    else max_attempts p)"
      using "1.IH" [OF "1.prems" RetryAfter "1.prems"] .
    then show ?thesis using "1.prems" RetryAfter nr lt
      by (subst under_policy.simps) auto
  qed
qed

lemma step1_valid:
  "\<not> num_is_nan ns n \<Longrightarrow> step1_validate ns (Num n) () = Inr (step1_output ns n)"
  by (simp add: step1_validate_def isNaN_def step1_output_def)

lemma step1_invalid_type:
  "typeof v \<noteq> ''number'' \<Longrightarrow> step1_validate ns v () = Inl (Error err_invalid_number)"
  by (simp add: step1_validate_def)

lemma step1_invalid_nan:
  "num_is_nan ns n \<Longrightarrow> step1_validate ns (Num n) () = Inl (Error err_invalid_number)"
  by (simp add: step1_validate_def isNaN_def)

lemma step2_valid: "step2_add_one ns (step1_output ns n) () = Inr (step2_output ns n)"
  by (simp add: step2_add_one_def step1_output_def step2_output_def js_plus_def)

lemma step3_valid: "step3_multiply_two ns (step2_output ns n) () = Inr (step3_output ns n)"
  by (simp add: step3_multiply_two_def step2_output_def step3_output_def js_times_def)

lemma step4_valid: "step4_multiply_three ns (step3_output ns n) () = Inr (step4_output ns n)"
  by (simp add: step4_multiply_three_def step3_output_def step4_output_def js_times_def)

lemma step5_valid:
  "step5_finalize ns now (Num n) (step1_output ns n) (step2_output ns n) (step3_output ns n)
     (step4_output ns n) () = Inr (final_output ns now n)"
  by (simp add: step5_finalize_def step1_output_def step2_output_def step3_output_def
      step4_output_def final_output_def)

lemma step_do_fresh_success:
  "getStep rid name l = None \<Longrightarrow> compute () = Inr v \<Longrightarrow>
   step_do p rid name compute l =
     (Inr v, l\<lparr>steps := (steps l)((rid, name) \<mapsto> \<lparr>attempts = 1, step_status = Succeeded v\<rparr>),
              declared := declared l @ [(rid, name)],
              invoked := invoked l @ [(rid, name)]\<rparr>)"
  by (simp add: step_do_def attempt_step_def getStep_def recordStepSuccess_def
      under_policy_success)

lemma step_do_fresh_failure:
  "getStep rid name l = None \<Longrightarrow> compute () = Inl e \<Longrightarrow>
   step_do p rid name compute l =
     (Inl (StepFailed name e),
      l\<lparr>steps := (steps l)((rid, name) \<mapsto>
           \<lparr>attempts = (if non_retryable e \<or> max_attempts p \<le> 1 then 1 else max_attempts p),
            step_status = Failed e\<rparr>),
        declared := declared l @ [(rid, name)],
        invoked := invoked l @
           replicate (if non_retryable e \<or> max_attempts p \<le> 1 then 1 else max_attempts p) (rid, name)\<rparr>)"
  by (simp add: step_do_def attempt_step_def getStep_def recordStepFailure_def
      under_policy_failure)

lemma step_do_memo:
  "getStep rid name l = Some r \<Longrightarrow> step_status r = Succeeded v \<Longrightarrow>
   step_do p rid name compute l = (Inr v, l\<lparr>declared := declared l @ [(rid, name)]\<rparr>)"
  by (simp add: step_do_def getStep_def)

subsection \<open>A run on a valid number\<close>

lemma step_do_after_success:
  "getStep rid name l = None \<Longrightarrow> compute () = Inr v \<Longrightarrow>
   step_do p rid name compute l = (Inr v, after_success rid name v l)"
  by (simp add: step_do_fresh_success after_success_def)

lemma getStep_after_success:
  "getStep rid name' (after_success rid name v l) =
     (if name' = name then Some \<lparr>attempts = 1, step_status = Succeeded v\<rparr>
      else getStep rid name' l)"
  by (simp add: getStep_def after_success_def)

lemma declared_after_success:
  "declared (after_success rid name v l) = declared l @ [(rid, name)]"
  by (simp add: after_success_def)

lemma invoked_after_success:
  "invoked (after_success rid name v l) = invoked l @ [(rid, name)]"
  by (simp add: after_success_def)

lemma runs_after_success: "runs (after_success rid name v l) = runs l"
  by (simp add: after_success_def)

lemma fresh_runD:
  "fresh_run rid l \<Longrightarrow>
   getStep rid ''step1-validate'' l = None \<and> getStep rid ''step2-add-one'' l = None \<and>
   getStep rid ''step3-multiply-two'' l = None \<and> getStep rid ''step4-multiply-three'' l = None \<and>
   getStep rid ''step5-finalize'' l = None"
  by (simp add: fresh_run_def step_names_def)

lemma run_valid:
  assumes fresh: "fresh_run rid l"
    and num: "destructure ''event.payload.params'' params ''number'' = Inr (Num n)"
    and ok: "\<not> num_is_nan ns n"
  shows "MyWorkflow_run ns now params (step_do p rid) l =
           (Inr (final_output ns now n), after_valid_run ns now rid n l)"
proof -
  note f = fresh_runD [OF fresh]
  let ?l1 = "after_success rid ''step1-validate'' (step1_output ns n) l"
  let ?l2 = "after_success rid ''step2-add-one'' (step2_output ns n) ?l1"
  let ?l3 = "after_success rid ''step3-multiply-two'' (step3_output ns n) ?l2"
  let ?l4 = "after_success rid ''step4-multiply-three'' (step4_output ns n) ?l3"
  have s1: "step_do p rid ''step1-validate'' (step1_validate ns (Num n)) l =
              (Inr (step1_output ns n), ?l1)"
    using f ok by (simp add: step_do_after_success step1_valid)
  have s2: "step_do p rid ''step2-add-one'' (step2_add_one ns (step1_output ns n)) ?l1 =
              (Inr (step2_output ns n), ?l2)"
    using f by (simp add: step_do_after_success step2_valid getStep_after_success)
  have s3: "step_do p rid ''step3-multiply-two'' (step3_multiply_two ns (step2_output ns n)) ?l2 =
              (Inr (step3_output ns n), ?l3)"
    using f by (simp add: step_do_after_success step3_valid getStep_after_success)
  have s4: "step_do p rid ''step4-multiply-three'' (step4_multiply_three ns (step3_output ns n)) ?l3 =
              (Inr (step4_output ns n), ?l4)"
    using f by (simp add: step_do_after_success step4_valid getStep_after_success)
  have s5: "step_do p rid ''step5-finalize''
              (step5_finalize ns now (Num n) (step1_output ns n) (step2_output ns n)
                 (step3_output ns n) (step4_output ns n)) ?l4 =
              (Inr (final_output ns now n), after_valid_run ns now rid n l)"
    using f by (simp add: step_do_after_success step5_valid getStep_after_success
        after_valid_run_def)
  show ?thesis
    by (simp add: MyWorkflow_run_def num s1 s2 s3 s4 s5)
qed

subsection \<open>The handler and the dispatcher on a valid number\<close>

lemma inline_result_valid:
  "inline_result ns now (Num n) =
     Inr (case final_output ns now n of
            Obj kvs \<Rightarrow> Obj (kvs @ [(''workflowStatus'', Str workflow_status_text)])
          | v \<Rightarrow> v)"
  by (simp add: inline_result_def final_output_def js_plus_def js_times_def)

lemma show_5: "show_nat 5 = ''5''" by (simp add: show_nat.simps)
lemma show_36: "show_nat 36 = ''36''" by (simp add: show_nat.simps)
lemma show_0: "show_nat 0 = ''0''" by (simp add: show_nat.simps)

lemma handle_post_valid:
  "MY_WORKFLOW_create env (Obj [(''params'', Obj [(''number'', Num n)])]) w = (Inr iid, w') \<Longrightarrow>
   handleRequest ns now manifest env (post_process (Obj [(''number'', Num n)])) w =
     (\<lparr>resp_status = 200,
       resp_headers = (''Content-Type'', ''application/json'') # corsHeaders,
       resp_body = JsonBody (Obj [(''workflowId'', Str iid), (''status'', Str ''completed''),
          (''result'', case final_output ns now n of
            Obj kvs \<Rightarrow> Obj (kvs @ [(''workflowStatus'', Str workflow_status_text)])
          | v \<Rightarrow> v)])\<rparr>, w')"
  by (simp add: handleRequest_def post_process_def process_request_def inline_result_valid)

lemma StartRun_params:
  "StartRun (Obj [(''params'', params)]) l =
     (Inr (instance_id (next_run l)),
      l\<lparr>runs := (runs l)(next_run l \<mapsto>
            \<lparr>workflow_name = ''calc'', run_input = params, run_status = Running\<rparr>),
        next_run := Suc (next_run l)\<rparr>)"
  by (simp add: StartRun_def start_def createRun_def)

lemma run_event_params:
  "get_prop payload ''params'' = Inr params \<Longrightarrow>
   MyWorkflow_run_event ns now payload step l = MyWorkflow_run ns now params step l"
  by (simp add: MyWorkflow_run_event_def)

lemma run_event_number_payload:
  "\<exists>m. MyWorkflow_run_event ns now (Obj [(''number'', v)]) step l =
         (Inl (UnrecordedError (TypeError m)), l)"
  by (simp add: MyWorkflow_run_event_def MyWorkflow_run_def)

lemma drive_number_payload:
  assumes "loadRun rid l = Some r" and "run_status r = Running"
    and "run_input r = Obj [(''number'', v)]"
  shows "threw_TypeError_outside_steps (status rid (drive p (MyWorkflow_run_event ns now) rid l))
       \<and> declared (drive p (MyWorkflow_run_event ns now) rid l) = declared l
       \<and> invoked (drive p (MyWorkflow_run_event ns now) rid l) = invoked l
       \<and> steps (drive p (MyWorkflow_run_event ns now) rid l) = steps l"
proof -
  obtain m where "MyWorkflow_run_event ns now (Obj [(''number'', v)]) (step_do p rid) l =
      (Inl (UnrecordedError (TypeError m)), l)"
    using run_event_number_payload by blast
  then show ?thesis
    using assms by (simp add: drive_def markRunTerminal_def status_def loadRun_def)
qed

subsection \<open>Scenario A and the agreement of the two computations\<close>

text \<open>
  C1, at the request of Scenario A. The POST of \<^verbatim>\<open>{number: 5}\<close> to \<^verbatim>\<open>/api/process\<close> is
  answered with status \<^verbatim>\<open>completed\<close> and an inline result whose \<^verbatim>\<open>finalResult\<close> is 36 and
  whose \<^verbatim>\<open>formula\<close> is \<^verbatim>\<open>((5 + 1) x 2) x 3 = 36\<close> (with the multiplication sign U+00D7,
  bytes C3 97). The run the request started has \<^verbatim>\<open>{number: 5}\<close> as its \<^verbatim>\<open>event.payload\<close>,
  where the property \<^verbatim>\<open>params\<close> is \<^verbatim>\<open>undefined\<close>: once driven, under any retry policy, the
  run is Failed by the \<^verbatim>\<open>TypeError\<close> of the first statement of \<^verbatim>\<open>MyWorkflow.run\<close>, thrown
  outside any step, and no step has been declared and no compute function invoked. The
  run is not Completed.
\<close>

theorem posted_run_throws_before_first_step:
  "resp_status (fst (handleRequest safe_integers now manifest executor_env
        (post_process (Obj [(''number'', Num (Integer 5))])) empty_ledger)) = 200
   \<and> field (json_of (resp_body (fst (handleRequest safe_integers now manifest executor_env
        (post_process (Obj [(''number'', Num (Integer 5))])) empty_ledger)))) ''status''
        = Str ''completed''
   \<and> field (field (json_of (resp_body (fst (handleRequest safe_integers now manifest executor_env
        (post_process (Obj [(''number'', Num (Integer 5))])) empty_ledger)))) ''result'')
        ''finalResult'' = Num (Integer 36)
   \<and> field (field (json_of (resp_body (fst (handleRequest safe_integers now manifest executor_env
        (post_process (Obj [(''number'', Num (Integer 5))])) empty_ledger)))) ''result'')
        ''formula''
        = Str (''((5 + 1) '' @ [CHR 0xC3, CHR 0x97] @ '' 2) '' @ [CHR 0xC3, CHR 0x97] @ '' 3 = 36'')
   \<and> map_option run_input (loadRun 0 (snd (handleRequest safe_integers now manifest executor_env
        (post_process (Obj [(''number'', Num (Integer 5))])) empty_ledger)))
        = Some (Obj [(''number'', Num (Integer 5))])
   \<and> get_prop (Obj [(''number'', Num (Integer 5))]) ''params'' = Inr (Undefined :: safe_number jsval)
   \<and> threw_TypeError_outside_steps
        (status 0 (drive p (MyWorkflow_run_event safe_integers now') 0
           (snd (handleRequest safe_integers now manifest executor_env
              (post_process (Obj [(''number'', Num (Integer 5))])) empty_ledger))))
   \<and> declared (drive p (MyWorkflow_run_event safe_integers now') 0
           (snd (handleRequest safe_integers now manifest executor_env
              (post_process (Obj [(''number'', Num (Integer 5))])) empty_ledger))) = []
   \<and> invoked (drive p (MyWorkflow_run_event safe_integers now') 0
           (snd (handleRequest safe_integers now manifest executor_env
              (post_process (Obj [(''number'', Num (Integer 5))])) empty_ledger))) = []"
proof -
  let ?req = "post_process (Obj [(''number'', Num (Integer 5))]) :: safe_number request"
  let ?h = "handleRequest safe_integers now manifest executor_env ?req empty_ledger"
  let ?run = "\<lparr>workflow_name = ''calc'', run_input = Obj [(''number'', Num (Integer 5))],
                run_status = Running\<rparr> :: safe_number run"
  let ?l1 = "empty_ledger\<lparr>runs := (runs empty_ledger)(0 \<mapsto> ?run), next_run := Suc 0\<rparr>
               :: safe_number ledger"
  have h: "?h = (\<lparr>resp_status = 200,
       resp_headers = (''Content-Type'', ''application/json'') # corsHeaders,
       resp_body = JsonBody (Obj [(''workflowId'', Str (instance_id 0)), (''status'', Str ''completed''),
          (''result'', case final_output safe_integers now (Integer 5) of
            Obj kvs \<Rightarrow> Obj (kvs @ [(''workflowStatus'', Str workflow_status_text)])
          | v \<Rightarrow> v)])\<rparr>, ?l1)"
    by (rule handle_post_valid) (simp add: executor_env_def StartRun_params empty_ledger_def)
  have a: "resp_status (fst ?h) = 200
    \<and> field (json_of (resp_body (fst ?h))) ''status'' = Str ''completed''
    \<and> field (field (json_of (resp_body (fst ?h))) ''result'') ''finalResult'' = Num (Integer 36)
    \<and> field (field (json_of (resp_body (fst ?h))) ''result'') ''formula''
        = Str (''((5 + 1) '' @ [CHR 0xC3, CHR 0x97] @ '' 2) '' @ [CHR 0xC3, CHR 0x97] @ '' 3 = 36'')"
    unfolding h
    by (simp add: field_def final_output_def safe_integers_def times_sign_def show_5 show_36)
  have b: "map_option run_input (loadRun 0 (snd ?h)) = Some (Obj [(''number'', Num (Integer 5))])"
    unfolding h by (simp add: loadRun_def)
  have c: "get_prop (Obj [(''number'', Num (Integer 5))]) ''params'' = Inr (Undefined :: safe_number jsval)"
    by simp
  have d: "threw_TypeError_outside_steps
             (status 0 (drive p (MyWorkflow_run_event safe_integers now') 0 ?l1))
       \<and> declared (drive p (MyWorkflow_run_event safe_integers now') 0 ?l1) = declared ?l1
       \<and> invoked (drive p (MyWorkflow_run_event safe_integers now') 0 ?l1) = invoked ?l1
       \<and> steps (drive p (MyWorkflow_run_event safe_integers now') 0 ?l1) = steps ?l1"
    by (rule drive_number_payload [where r = ?run]) (simp_all add: loadRun_def)
  have e: "declared ?l1 = [] \<and> invoked ?l1 = []"
    by (simp add: empty_ledger_def)
  have s: "snd ?h = ?l1" unfolding h by simp
  show ?thesis
    unfolding s using a b [unfolded s] c d e by simp
qed

text \<open>
  C2. For every number \<open>n\<close> that passes validation (a request body parsed from JSON never
  holds NaN), the result the request handler computes inline and sends as \<^verbatim>\<open>result\<close> has the
  same \<^verbatim>\<open>finalResult\<close>, the same \<^verbatim>\<open>formula\<close> and the same five step messages as the result
  \<^verbatim>\<open>MyWorkflow.run\<close> returns on \<open>n\<close>, in every number system, whatever the clock readings
  of the two computations.
\<close>

theorem inline_result_agrees_with_run:
  "fresh_run rid l \<Longrightarrow> \<not> num_is_nan ns n \<Longrightarrow>
   MY_WORKFLOW_create env (Obj [(''params'', Obj [(''number'', Num n)])]) w = (Inr iid, w') \<Longrightarrow>
   \<exists>inline result k f m1 m2 m3 m4 m5.
      inline_result ns now (Num n) = Inr inline
    \<and> field (json_of (resp_body (fst (handleRequest ns now manifest env
                 (post_process (Obj [(''number'', Num n)])) w)))) ''result'' = inline
    \<and> fst (MyWorkflow_run ns now' (Obj [(''number'', Num n)]) (step_do p rid) l) = Inr result
    \<and> field inline ''finalResult'' = field result ''finalResult''
    \<and> field inline ''formula'' = field result ''formula''
    \<and> field inline ''steps'' = field result ''steps''
    \<and> field result ''finalResult'' = Num k
    \<and> field result ''formula'' = Str f
    \<and> field result ''steps'' = Arr [Str m1, Str m2, Str m3, Str m4, Str m5]"
  by (simp add: inline_result_valid handle_post_valid run_valid field_def final_output_def)

theorem inline_result_agrees_with_run_witness:
  "fresh_run 0 (empty_ledger :: safe_number ledger) \<and> \<not> num_is_nan safe_integers (Integer 5)
   \<and> MY_WORKFLOW_create executor_env (Obj [(''params'', Obj [(''number'', Num (Integer 5))])])
        (empty_ledger :: safe_number ledger) = (Inr ''run-0'', snd (StartRun (Obj [(''params'', Obj [(''number'', Num (Integer 5))])]) empty_ledger))
   \<and> (\<exists>inline result k f m1 m2 m3 m4 m5.
      inline_result safe_integers ''2025-01-01T00:00:00.000Z'' (Num (Integer 5)) = Inr inline
    \<and> field (json_of (resp_body (fst (handleRequest safe_integers ''2025-01-01T00:00:00.000Z''
                 Map.empty executor_env
                 (post_process (Obj [(''number'', Num (Integer 5))])) empty_ledger)))) ''result''
        = inline
    \<and> fst (MyWorkflow_run safe_integers ''2025-01-01T00:00:05.000Z''
              (Obj [(''number'', Num (Integer 5))])
              (step_do \<lparr>max_attempts = 3, base_delay = 1, max_delay = 8\<rparr> 0) empty_ledger)
        = Inr result
    \<and> field inline ''finalResult'' = field result ''finalResult''
    \<and> field inline ''formula'' = field result ''formula''
    \<and> field inline ''steps'' = field result ''steps''
    \<and> field result ''finalResult'' = Num k
    \<and> field result ''formula'' = Str f
    \<and> field result ''steps'' = Arr [Str m1, Str m2, Str m3, Str m4, Str m5])"
proof -
  have f: "fresh_run 0 (empty_ledger :: safe_number ledger)"
    by (simp add: fresh_run_def getStep_def empty_ledger_def)
  have n: "\<not> num_is_nan safe_integers (Integer 5)" by (simp add: safe_integers_def)
  have c: "MY_WORKFLOW_create executor_env (Obj [(''params'', Obj [(''number'', Num (Integer 5))])])
        (empty_ledger :: safe_number ledger)
      = (Inr ''run-0'', snd (StartRun (Obj [(''params'', Obj [(''number'', Num (Integer 5))])]) empty_ledger))"
    by (simp add: executor_env_def StartRun_params instance_id_def empty_ledger_def show_0)
  from inline_result_agrees_with_run [OF f n c] f n c show ?thesis by blast
qed

subsection \<open>A run on an input that fails validation\<close>

lemma step1_rejects:
  "\<not> valid_number ns v \<Longrightarrow> step1_validate ns v () = Inl (Error err_invalid_number)"
  by (cases v) (simp_all add: step1_validate_def isNaN_def)

lemma step1_accepts:
  "valid_number ns v \<Longrightarrow> \<exists>n. v = Num n \<and> \<not> num_is_nan ns n"
  by (cases v) simp_all

lemma step_do_after_failure:
  "getStep rid name l = None \<Longrightarrow> compute () = Inl e \<Longrightarrow> \<not> non_retryable e \<Longrightarrow>
   step_do p rid name compute l =
     (Inl (StepFailed name e), after_failure rid name e (max 1 (max_attempts p)) l)"
  by (simp add: step_do_fresh_failure after_failure_def max_def)

lemma run_invalid:
  assumes fresh: "fresh_run rid l"
    and num: "destructure ''event.payload.params'' params ''number'' = Inr v"
    and bad: "\<not> valid_number ns v"
  shows "MyWorkflow_run ns now params (step_do p rid) l =
           (Inl (StepFailed ''step1-validate'' (Error err_invalid_number)),
            after_failure rid ''step1-validate'' (Error err_invalid_number)
              (max 1 (max_attempts p)) l)"
proof -
  have "getStep rid ''step1-validate'' l = None"
    using fresh_runD [OF fresh] by simp
  then have "step_do p rid ''step1-validate'' (step1_validate ns v) l =
           (Inl (StepFailed ''step1-validate'' (Error err_invalid_number)),
            after_failure rid ''step1-validate'' (Error err_invalid_number)
              (max 1 (max_attempts p)) l)"
    by (rule step_do_after_failure) (simp_all add: step1_rejects [OF bad])
  then show ?thesis by (simp add: MyWorkflow_run_def num)
qed

lemma drive_params_invalid:
  assumes run: "loadRun rid l = Some r" "run_status r = Running"
    "get_prop (run_input r) ''params'' = Inr params"
    "destructure ''event.payload.params'' params ''number'' = Inr v"
    and fresh: "fresh_run rid l" and bad: "\<not> valid_number ns v"
  shows "drive p (MyWorkflow_run_event ns now) rid l =
           markRunTerminal rid (RunFailed (StepFailed ''step1-validate'' (Error err_invalid_number)))
             (after_failure rid ''step1-validate'' (Error err_invalid_number)
                (max 1 (max_attempts p)) l)"
  using run(1,2)
  by (simp add: drive_def run_event_params [OF run(3)] run_invalid [OF fresh run(4) bad])

lemma status_markRunTerminal:
  "loadRun rid l = Some r \<Longrightarrow> run_status r = Running \<Longrightarrow>
   status rid (markRunTerminal rid s l) = Some s"
  by (simp add: status_def markRunTerminal_def loadRun_def)

lemma invoked_markRunTerminal: "invoked (markRunTerminal rid s l) = invoked l"
  by (simp add: markRunTerminal_def split: option.splits)

lemma loadRun_after_failure: "loadRun rid' (after_failure rid name e k l) = loadRun rid' l"
  by (simp add: loadRun_def after_failure_def)

lemma invoked_after_failure:
  "invoked (after_failure rid name e k l) = invoked l @ replicate k (rid, name)"
  by (simp add: after_failure_def)

lemma handle_post_object:
  "MY_WORKFLOW_create env (Obj [(''params'', Obj [(''number'', v)])]) w = (Inr iid, w') \<Longrightarrow>
   inline_result ns now v = Inr result \<Longrightarrow>
   handleRequest ns now manifest env (post_process (Obj [(''number'', v)])) w =
     (\<lparr>resp_status = 200,
       resp_headers = (''Content-Type'', ''application/json'') # corsHeaders,
       resp_body = JsonBody (Obj [(''workflowId'', Str iid), (''status'', Str ''completed''),
          (''result'', result)])\<rparr>, w')"
  by (simp add: handleRequest_def post_process_def process_request_def)

lemma inline_result_string:
  "\<exists>result. inline_result ns now (Str s) = Inr result"
  by (simp add: inline_result_def js_plus_def js_times_def)

lemma runs_after_failure: "runs (after_failure rid name e k l) = runs l"
  by (simp add: after_failure_def)

text \<open>
  C4, as stated, fails. The run started by the POST of \<^verbatim>\<open>{number: "abc"}\<close> never invokes
  the validation step: it is Failed by a \<^verbatim>\<open>TypeError\<close> thrown outside any step, which names
  no step. A run whose \<^verbatim>\<open>event.payload.params\<close> is \<^verbatim>\<open>{number: "abc"}\<close> does reach the
  validation step; with a retry policy of three attempts the compute function of
  \<^verbatim>\<open>step1-validate\<close> is then invoked three times, since the closure throws a plain
  \<^verbatim>\<open>Error\<close>, which nothing marks as non-retryable, and the run ends Failed with a StepFailed
  error wrapping that \<^verbatim>\<open>Error\<close>.
\<close>

theorem validation_failure_is_retried:
  "invoked (drive \<lparr>max_attempts = 3, base_delay = 1, max_delay = 8\<rparr>
              (MyWorkflow_run_event safe_integers ''2025-01-01T00:00:05.000Z'') 0
              (snd (handleRequest safe_integers ''2025-01-01T00:00:00.000Z'' Map.empty executor_env
                      (post_process (Obj [(''number'', Str ''abc'')])) empty_ledger))) = []
   \<and> threw_TypeError_outside_steps
       (status 0 (drive \<lparr>max_attempts = 3, base_delay = 1, max_delay = 8\<rparr>
              (MyWorkflow_run_event safe_integers ''2025-01-01T00:00:05.000Z'') 0
              (snd (handleRequest safe_integers ''2025-01-01T00:00:00.000Z'' Map.empty executor_env
                      (post_process (Obj [(''number'', Str ''abc'')])) empty_ledger))))
   \<and> invoked (drive \<lparr>max_attempts = 3, base_delay = 1, max_delay = 8\<rparr>
              (MyWorkflow_run_event safe_integers ''2025-01-01T00:00:05.000Z'') 0
              (snd (start ''calc'' (Obj [(''params'', Obj [(''number'', Str ''abc'')])])
                      empty_ledger)))
     = [(0, ''step1-validate''), (0, ''step1-validate''), (0, ''step1-validate'')]
   \<and> status 0 (drive \<lparr>max_attempts = 3, base_delay = 1, max_delay = 8\<rparr>
              (MyWorkflow_run_event safe_integers ''2025-01-01T00:00:05.000Z'') 0
              (snd (start ''calc'' (Obj [(''params'', Obj [(''number'', Str ''abc'')])])
                      empty_ledger)))
     = Some (RunFailed (StepFailed ''step1-validate'' (Error err_invalid_number)))
   \<and> non_retryable (Error err_invalid_number) = False"
proof -
  let ?p = "\<lparr>max_attempts = 3, base_delay = 1, max_delay = 8\<rparr>"
  let ?posted = "\<lparr>workflow_name = ''calc'', run_input = Obj [(''number'', Str ''abc'')],
                run_status = Running\<rparr> :: safe_number run"
  let ?l1 = "empty_ledger\<lparr>runs := (runs empty_ledger)(0 \<mapsto> ?posted), next_run := Suc 0\<rparr>
               :: safe_number ledger"
  let ?run = "\<lparr>workflow_name = ''calc'',
                run_input = Obj [(''params'', Obj [(''number'', Str ''abc'')])],
                run_status = Running\<rparr> :: safe_number run"
  let ?l2 = "empty_ledger\<lparr>runs := (runs empty_ledger)(0 \<mapsto> ?run), next_run := Suc 0\<rparr>
               :: safe_number ledger"
  obtain result where r: "inline_result safe_integers ''2025-01-01T00:00:00.000Z'' (Str ''abc'')
      = Inr result"
    using inline_result_string by blast
  have h: "snd (handleRequest safe_integers ''2025-01-01T00:00:00.000Z'' Map.empty executor_env
                      (post_process (Obj [(''number'', Str ''abc'')])) empty_ledger) = ?l1"
    by (subst handle_post_object [OF _ r])
       (simp_all add: executor_env_def StartRun_params empty_ledger_def)
  have st: "snd (start ''calc'' (Obj [(''params'', Obj [(''number'', Str ''abc'')])])
                   (empty_ledger :: safe_number ledger)) = ?l2"
    by (simp add: start_def createRun_def empty_ledger_def)
  have posted: "threw_TypeError_outside_steps
             (status 0 (drive ?p (MyWorkflow_run_event safe_integers ''2025-01-01T00:00:05.000Z'') 0 ?l1))
       \<and> declared (drive ?p (MyWorkflow_run_event safe_integers ''2025-01-01T00:00:05.000Z'') 0 ?l1)
           = declared ?l1
       \<and> invoked (drive ?p (MyWorkflow_run_event safe_integers ''2025-01-01T00:00:05.000Z'') 0 ?l1)
           = invoked ?l1
       \<and> steps (drive ?p (MyWorkflow_run_event safe_integers ''2025-01-01T00:00:05.000Z'') 0 ?l1)
           = steps ?l1"
    by (rule drive_number_payload [where r = ?posted]) (simp_all add: loadRun_def)
  have i1: "invoked ?l1 = []" by (simp add: empty_ledger_def)
  have d: "drive ?p (MyWorkflow_run_event safe_integers ''2025-01-01T00:00:05.000Z'') 0 ?l2 =
           markRunTerminal 0 (RunFailed (StepFailed ''step1-validate'' (Error err_invalid_number)))
             (after_failure 0 ''step1-validate'' (Error err_invalid_number)
                (max 1 (max_attempts ?p)) ?l2)"
    by (rule drive_params_invalid [where r = ?run and v = "Str ''abc''"
          and params = "Obj [(''number'', Str ''abc'')]"])
       (simp_all add: loadRun_def empty_ledger_def fresh_run_def getStep_def)
  have s: "status 0 (markRunTerminal 0
             (RunFailed (StepFailed ''step1-validate'' (Error err_invalid_number)))
             (after_failure 0 ''step1-validate'' (Error err_invalid_number)
                (max 1 (max_attempts ?p)) ?l2))
           = Some (RunFailed (StepFailed ''step1-validate'' (Error err_invalid_number)))"
    by (rule status_markRunTerminal [where r = ?run])
       (simp_all add: runs_after_failure loadRun_def empty_ledger_def)
  have i: "invoked (markRunTerminal 0
             (RunFailed (StepFailed ''step1-validate'' (Error err_invalid_number)))
             (after_failure 0 ''step1-validate'' (Error err_invalid_number)
                (max 1 (max_attempts ?p)) ?l2))
           = [(0, ''step1-validate''), (0, ''step1-validate''), (0, ''step1-validate'')]"
    by (simp add: invoked_markRunTerminal invoked_after_failure empty_ledger_def numeral_3_eq_3)
  show ?thesis
    unfolding h st d using s i posted i1 by simp
qed

text \<open>
  C4, amended. In a run whose \<^verbatim>\<open>event.payload.params\<close> is \<^verbatim>\<open>{number: "abc"}\<close> the
  validation step throws a plain \<^verbatim>\<open>Error\<close> that is not marked non-retryable. On a run
  without step records the step is therefore attempted until the retry policy gives up,
  \<open>max_attempts\<close> times (once when the policy allows no attempt at all), and no later step is
  invoked; the run then reaches Failed with a StepFailed error that names
  \<^verbatim>\<open>step1-validate\<close> and wraps that \<^verbatim>\<open>Error\<close>.
\<close>

theorem non_numeric_input_fails_after_retries:
  assumes "loadRun rid l = Some r" and "run_status r = Running"
    and "get_prop (run_input r) ''params'' = Inr (Obj [(''number'', Str ''abc'')])"
    and "fresh_run rid l"
  shows "status rid (drive p (MyWorkflow_run_event ns now) rid l)
           = Some (RunFailed (StepFailed ''step1-validate'' (Error err_invalid_number)))
       \<and> invoked (drive p (MyWorkflow_run_event ns now) rid l)
           = invoked l @ replicate (max 1 (max_attempts p)) (rid, ''step1-validate'')
       \<and> step1_validate ns (Str ''abc'') () = Inl (Error err_invalid_number)
       \<and> \<not> non_retryable (Error err_invalid_number)"
proof -
  have g: "destructure ''event.payload.params'' (Obj [(''number'', Str ''abc'')]) ''number''
             = Inr (Str ''abc'' :: 'a jsval)"
    by simp
  have b: "\<not> valid_number ns (Str ''abc'')" by simp
  show ?thesis
    unfolding drive_params_invalid [OF assms(1,2,3) g assms(4) b]
    using assms(1,2)
    by (simp add: invoked_markRunTerminal invoked_after_failure status_markRunTerminal
        loadRun_after_failure step1_rejects)
qed

theorem non_numeric_input_fails_after_retries_witness:
  "loadRun 0 (snd (start ''calc'' (Obj [(''params'', Obj [(''number'', Str ''abc'')])])
                (empty_ledger :: safe_number ledger)))
     = Some \<lparr>workflow_name = ''calc'',
              run_input = Obj [(''params'', Obj [(''number'', Str ''abc'')])],
              run_status = Running\<rparr>
   \<and> get_prop (Obj [(''params'', Obj [(''number'', Str ''abc'')])]) ''params''
       = Inr (Obj [(''number'', Str ''abc'')] :: safe_number jsval)
   \<and> fresh_run 0 (snd (start ''calc'' (Obj [(''params'', Obj [(''number'', Str ''abc'')])])
                (empty_ledger :: safe_number ledger)))
   \<and> status 0 (drive \<lparr>max_attempts = 5, base_delay = 1, max_delay = 8\<rparr>
                 (MyWorkflow_run_event safe_integers ''2025-01-01T00:00:05.000Z'') 0
                 (snd (start ''calc'' (Obj [(''params'', Obj [(''number'', Str ''abc'')])])
                         empty_ledger)))
       = Some (RunFailed (StepFailed ''step1-validate'' (Error err_invalid_number)))
   \<and> invoked (drive \<lparr>max_attempts = 5, base_delay = 1, max_delay = 8\<rparr>
                 (MyWorkflow_run_event safe_integers ''2025-01-01T00:00:05.000Z'') 0
                 (snd (start ''calc'' (Obj [(''params'', Obj [(''number'', Str ''abc'')])])
                         empty_ledger)))
       = replicate 5 (0, ''step1-validate'')"
proof -
  let ?r = "\<lparr>workflow_name = ''calc'',
              run_input = Obj [(''params'', Obj [(''number'', Str ''abc'')])],
              run_status = Running\<rparr> :: safe_number run"
  let ?l = "snd (start ''calc'' (Obj [(''params'', Obj [(''number'', Str ''abc'')])])
                  (empty_ledger :: safe_number ledger))"
  have a: "loadRun 0 ?l = Some ?r"
    by (simp add: start_def createRun_def loadRun_def empty_ledger_def)
  have b: "run_status ?r = Running" by simp
  have c: "get_prop (run_input ?r) ''params'' = Inr (Obj [(''number'', Str ''abc'')])" by simp
  have d: "fresh_run 0 ?l"
    by (simp add: start_def createRun_def fresh_run_def getStep_def empty_ledger_def)
  have e: "invoked ?l = []"
    by (simp add: start_def createRun_def empty_ledger_def)
  from non_numeric_input_fails_after_retries [OF a b c d,
      where p = "\<lparr>max_attempts = 5, base_delay = 1, max_delay = 8\<rparr>" and ns = safe_integers
        and now = "''2025-01-01T00:00:05.000Z''"]
  show ?thesis using a d e by simp
qed

subsection \<open>The process route\<close>

lemma and_then_eq_Inr: "(and_then m f = Inr y) = (\<exists>x. m = Inr x \<and> f x = Inr y)"
  by (cases m) auto

lemma and_then_eq_Inl: "(and_then m f = Inl e) = (m = Inl e \<or> (\<exists>x. m = Inr x \<and> f x = Inl e))"
  by (cases m) auto

lemma inline_result_fields:
  "inline_result ns now v = Inr result \<Longrightarrow>
   \<exists>fields. result = Obj fields \<and>
     map fst fields = [''success'', ''originalNumber'', ''finalResult'', ''formula'',
                       ''timestamp'', ''steps'', ''workflowStatus'']"
  by (auto simp: inline_result_def and_then_eq_Inr)

lemma process_request_cases:
  "(\<exists>iid result w'. process_request ns now env req w =
        (\<lparr>resp_status = 200,
          resp_headers = (''Content-Type'', ''application/json'') # corsHeaders,
          resp_body = JsonBody (Obj [(''workflowId'', Str iid), (''status'', Str ''completed''),
                                     (''result'', result)])\<rparr>, w')
      \<and> (\<exists>number. inline_result ns now number = Inr result))
   \<or> (\<exists>e w'. process_request ns now env req w = (error_response e, w'))"
  by (auto simp: process_request_def split: sum.splits prod.splits)

lemma handleRequest_process:
  "req_pathname req = ''/api/process'' \<Longrightarrow> req_method req = ''POST'' \<Longrightarrow>
   handleRequest ns now manifest env req w = process_request ns now env req w"
  by (simp add: handleRequest_def)

lemma fetch_process:
  "req_pathname req = ''/process'' \<Longrightarrow> req_method req = ''POST'' \<Longrightarrow>
   fetch ns now env req w = process_request ns now env req w"
  by (simp add: fetch_def)

lemma inline_result_shape:
  "inline_result ns now v = Inr result \<Longrightarrow>
   \<exists>k f m1 m2 m3 m4 m5.
     result = Obj [(''success'', Bool True), (''originalNumber'', v), (''finalResult'', Num k),
                   (''formula'', Str f), (''timestamp'', Str now),
                   (''steps'', Arr [Str m1, Str m2, Str m3, Str m4, Str m5]),
                   (''workflowStatus'', Str workflow_status_text)]"
  by (auto simp: inline_result_def js_times_def and_then_eq_Inr)

lemma process_request_shape:
  "(\<exists>iid body v k f m1 m2 m3 m4 m5.
        fst (process_request ns now env req w) =
          \<lparr>resp_status = 200,
           resp_headers = (''Content-Type'', ''application/json'') # corsHeaders,
           resp_body = JsonBody (Obj [(''workflowId'', Str iid), (''status'', Str ''completed''),
              (''result'',
               Obj [(''success'', Bool True), (''originalNumber'', v), (''finalResult'', Num k),
                    (''formula'', Str f), (''timestamp'', Str now),
                    (''steps'', Arr [Str m1, Str m2, Str m3, Str m4, Str m5]),
                    (''workflowStatus'', Str workflow_status_text)])])\<rparr>
      \<and> req_json req = Inr body \<and> get_prop body ''number'' = Inr v)
   \<or> (\<exists>e. fst (process_request ns now env req w) = error_response e)"
proof (cases "req_json req")
  case (Inl e)
  then show ?thesis by (auto simp: process_request_def)
next
  case body: (Inr body)
  show ?thesis
  proof (cases "get_prop body ''number''")
    case (Inl e)
    with body show ?thesis by (auto simp: process_request_def)
  next
    case v: (Inr v)
    obtain c w' where c: "MY_WORKFLOW_create env (Obj [(''params'', Obj [(''number'', v)])]) w = (c, w')"
      by (cases "MY_WORKFLOW_create env (Obj [(''params'', Obj [(''number'', v)])]) w")
    show ?thesis
    proof (cases c)
      case (Inl e)
      with body v c show ?thesis by (auto simp: process_request_def)
    next
      case iid: (Inr iid)
      show ?thesis
      proof (cases "inline_result ns now v")
        case (Inl e)
        with body v c iid show ?thesis by (auto simp: process_request_def)
      next
        case (Inr result)
        from inline_result_shape [OF this] obtain k f m1 m2 m3 m4 m5 where
          "result = Obj [(''success'', Bool True), (''originalNumber'', v), (''finalResult'', Num k),
                   (''formula'', Str f), (''timestamp'', Str now),
                   (''steps'', Arr [Str m1, Str m2, Str m3, Str m4, Str m5]),
                   (''workflowStatus'', Str workflow_status_text)]"
          by (elim exE) (rule that)
        with body v c iid Inr show ?thesis by (simp add: process_request_def)
      qed
    qed
  qed
qed

lemma posted_run_is_Running:
  "status (next_run l) (snd (handleRequest ns now manifest executor_env
       (post_process (Obj [(''number'', v)])) l)) = Some Running"
  by (simp add: handleRequest_def post_process_def process_request_def executor_env_def
      StartRun_params status_def loadRun_def split: sum.splits)

text \<open>
  C3, as stated, fails. The POST of \<^verbatim>\<open>{number: "abc"}\<close>, an input that the validation of
  step 1 rejects, is answered with status \<^verbatim>\<open>completed\<close>; the run it started is Running when
  the answer is sent and, once driven, Failed.
\<close>

theorem failed_run_reported_completed:
  "field (json_of (resp_body (fst (handleRequest safe_integers ''2025-01-01T00:00:00.000Z''
            Map.empty executor_env (post_process (Obj [(''number'', Str ''abc'')]))
            empty_ledger)))) ''status'' = Str ''completed''
   \<and> step1_validate safe_integers (Str ''abc'') () = Inl (Error err_invalid_number)
   \<and> status 0 (snd (handleRequest safe_integers ''2025-01-01T00:00:00.000Z'' Map.empty
            executor_env (post_process (Obj [(''number'', Str ''abc'')])) empty_ledger))
       = Some Running
   \<and> threw_TypeError_outside_steps
       (status 0 (drive \<lparr>max_attempts = 3, base_delay = 1, max_delay = 8\<rparr>
              (MyWorkflow_run_event safe_integers ''2025-01-01T00:00:05.000Z'') 0
              (snd (handleRequest safe_integers ''2025-01-01T00:00:00.000Z'' Map.empty executor_env
                      (post_process (Obj [(''number'', Str ''abc'')])) empty_ledger))))"
proof -
  let ?p = "\<lparr>max_attempts = 3, base_delay = 1, max_delay = 8\<rparr>"
  let ?run = "\<lparr>workflow_name = ''calc'', run_input = Obj [(''number'', Str ''abc'')],
                run_status = Running\<rparr> :: safe_number run"
  let ?l1 = "empty_ledger\<lparr>runs := (runs empty_ledger)(0 \<mapsto> ?run), next_run := Suc 0\<rparr>
               :: safe_number ledger"
  obtain result where r: "inline_result safe_integers ''2025-01-01T00:00:00.000Z'' (Str ''abc'')
      = Inr result"
    using inline_result_string by blast
  have h: "handleRequest safe_integers ''2025-01-01T00:00:00.000Z'' Map.empty executor_env
             (post_process (Obj [(''number'', Str ''abc'')])) empty_ledger =
           (\<lparr>resp_status = 200,
             resp_headers = (''Content-Type'', ''application/json'') # corsHeaders,
             resp_body = JsonBody (Obj [(''workflowId'', Str (instance_id 0)),
                (''status'', Str ''completed''), (''result'', result)])\<rparr>, ?l1)"
    by (rule handle_post_object [OF _ r])
       (simp add: executor_env_def StartRun_params empty_ledger_def)
  have d: "threw_TypeError_outside_steps
             (status 0 (drive ?p (MyWorkflow_run_event safe_integers ''2025-01-01T00:00:05.000Z'') 0 ?l1))
       \<and> declared (drive ?p (MyWorkflow_run_event safe_integers ''2025-01-01T00:00:05.000Z'') 0 ?l1)
           = declared ?l1
       \<and> invoked (drive ?p (MyWorkflow_run_event safe_integers ''2025-01-01T00:00:05.000Z'') 0 ?l1)
           = invoked ?l1
       \<and> steps (drive ?p (MyWorkflow_run_event safe_integers ''2025-01-01T00:00:05.000Z'') 0 ?l1)
           = steps ?l1"
    by (rule drive_number_payload [where r = ?run]) (simp_all add: loadRun_def)
  have t: "status 0 ?l1 = Some Running"
    by (simp add: status_def loadRun_def)
  have v: "step1_validate safe_integers (Str ''abc'') () = Inl (Error err_invalid_number)"
    by (rule step1_rejects) simp
  show ?thesis
    unfolding h using d t v by (simp add: field_def)
qed

text \<open>
  C3, amended. The caller of the process route (\<^verbatim>\<open>/api/process\<close> in the combined worker,
  \<^verbatim>\<open>/process\<close> in the API-only worker) receives exactly one of two reports. The first is
  HTTP 200 whose JSON carries \<^verbatim>\<open>workflowId\<close>, status \<^verbatim>\<open>completed\<close> and \<^verbatim>\<open>result\<close>, the
  handler's inline result: \<^verbatim>\<open>success\<close>, \<^verbatim>\<open>finalResult\<close>, \<^verbatim>\<open>formula\<close>, \<^verbatim>\<open>timestamp\<close>, the
  five \<^verbatim>\<open>steps\<close> and \<^verbatim>\<open>workflowStatus\<close> are always written, \<^verbatim>\<open>originalNumber\<close> unless
  \<^verbatim>\<open>body.number\<close> is \<^verbatim>\<open>undefined\<close>, which \<^verbatim>\<open>JSON.stringify\<close> leaves out. The second is HTTP
  500 with the message of the thrown error and nothing else. The handler does not query the
  run, so neither Running nor a Failed status with a step name is ever reported; the
  status \<^verbatim>\<open>completed\<close> is sent while the run the request started is still Running.
\<close>

theorem process_route_reports_completed_or_error:
  "((\<exists>iid body v k f m1 m2 m3 m4 m5.
        fst (process_request ns now env req w) =
          \<lparr>resp_status = 200,
           resp_headers = (''Content-Type'', ''application/json'') # corsHeaders,
           resp_body = JsonBody (Obj [(''workflowId'', Str iid), (''status'', Str ''completed''),
              (''result'',
               Obj [(''success'', Bool True), (''originalNumber'', v), (''finalResult'', Num k),
                    (''formula'', Str f), (''timestamp'', Str now),
                    (''steps'', Arr [Str m1, Str m2, Str m3, Str m4, Str m5]),
                    (''workflowStatus'', Str workflow_status_text)])])\<rparr>
      \<and> req_json req = Inr body \<and> get_prop body ''number'' = Inr v
      \<and> stringified_keys (json_of (resp_body (fst (process_request ns now env req w))))
          = [''workflowId'', ''status'', ''result'']
      \<and> stringified_keys (field (json_of (resp_body (fst (process_request ns now env req w))))
                            ''result'')
          = ''success'' # (if v = Undefined then [] else [''originalNumber'']) @
            [''finalResult'', ''formula'', ''timestamp'', ''steps'', ''workflowStatus''])
     \<or> (\<exists>e. fst (process_request ns now env req w) =
          \<lparr>resp_status = 500,
           resp_headers = (''Content-Type'', ''application/json'') # corsHeaders,
           resp_body = JsonBody (Obj [(''error'', Str (message e))])\<rparr>))
   \<and> (req_pathname req = ''/api/process'' \<and> req_method req = ''POST'' \<longrightarrow>
        handleRequest ns now manifest env req w = process_request ns now env req w)
   \<and> (req_pathname req = ''/process'' \<and> req_method req = ''POST'' \<longrightarrow>
        fetch ns now env req w = process_request ns now env req w)
   \<and> status (next_run l) (snd (handleRequest ns now manifest executor_env
                 (post_process (Obj [(''number'', x)])) l)) = Some Running
   \<and> ((\<exists>result. inline_result ns now x = Inr result) \<longrightarrow>
        field (json_of (resp_body (fst (handleRequest ns now manifest executor_env
                 (post_process (Obj [(''number'', x)])) l)))) ''status'' = Str ''completed'')"
proof -
  have a: "(\<exists>iid body v k f m1 m2 m3 m4 m5.
        fst (process_request ns now env req w) =
          \<lparr>resp_status = 200,
           resp_headers = (''Content-Type'', ''application/json'') # corsHeaders,
           resp_body = JsonBody (Obj [(''workflowId'', Str iid), (''status'', Str ''completed''),
              (''result'',
               Obj [(''success'', Bool True), (''originalNumber'', v), (''finalResult'', Num k),
                    (''formula'', Str f), (''timestamp'', Str now),
                    (''steps'', Arr [Str m1, Str m2, Str m3, Str m4, Str m5]),
                    (''workflowStatus'', Str workflow_status_text)])])\<rparr>
      \<and> req_json req = Inr body \<and> get_prop body ''number'' = Inr v
      \<and> stringified_keys (json_of (resp_body (fst (process_request ns now env req w))))
          = [''workflowId'', ''status'', ''result'']
      \<and> stringified_keys (field (json_of (resp_body (fst (process_request ns now env req w))))
                            ''result'')
          = ''success'' # (if v = Undefined then [] else [''originalNumber'']) @
            [''finalResult'', ''formula'', ''timestamp'', ''steps'', ''workflowStatus''])
     \<or> (\<exists>e. fst (process_request ns now env req w) =
          \<lparr>resp_status = 500,
           resp_headers = (''Content-Type'', ''application/json'') # corsHeaders,
           resp_body = JsonBody (Obj [(''error'', Str (message e))])\<rparr>)"
    using process_request_shape [of ns now env req w]
  proof (elim disjE exE conjE)
    fix iid body v k f m1 m2 m3 m4 m5
    assume r: "fst (process_request ns now env req w) =
          \<lparr>resp_status = 200,
           resp_headers = (''Content-Type'', ''application/json'') # corsHeaders,
           resp_body = JsonBody (Obj [(''workflowId'', Str iid), (''status'', Str ''completed''),
              (''result'',
               Obj [(''success'', Bool True), (''originalNumber'', v), (''finalResult'', Num k),
                    (''formula'', Str f), (''timestamp'', Str now),
                    (''steps'', Arr [Str m1, Str m2, Str m3, Str m4, Str m5]),
                    (''workflowStatus'', Str workflow_status_text)])])\<rparr>"
      and b: "req_json req = Inr body" and g: "get_prop body ''number'' = Inr v"
    have keys: "stringified_keys (json_of (resp_body (fst (process_request ns now env req w))))
          = [''workflowId'', ''status'', ''result'']
      \<and> stringified_keys (field (json_of (resp_body (fst (process_request ns now env req w))))
                            ''result'')
          = ''success'' # (if v = Undefined then [] else [''originalNumber'']) @
            [''finalResult'', ''formula'', ''timestamp'', ''steps'', ''workflowStatus'']"
      unfolding r by (simp add: field_def)
    show ?thesis
      by (insert r b g keys, intro disjI1, rule exI [of _ iid], rule exI [of _ body], rule exI [of _ v],
          rule exI [of _ k], rule exI [of _ f], rule exI [of _ m1], rule exI [of _ m2],
          rule exI [of _ m3], rule exI [of _ m4], rule exI [of _ m5]) simp
  next
    fix e
    assume "fst (process_request ns now env req w) = error_response e"
    then show ?thesis
      by (intro disjI2, rule_tac x = e in exI) (simp add: error_response_def)
  qed
  have b: "req_pathname req = ''/api/process'' \<and> req_method req = ''POST'' \<longrightarrow>
        handleRequest ns now manifest env req w = process_request ns now env req w"
    by (simp add: handleRequest_process)
  have c: "req_pathname req = ''/process'' \<and> req_method req = ''POST'' \<longrightarrow>
        fetch ns now env req w = process_request ns now env req w"
    by (simp add: fetch_process)
  have d: "status (next_run l) (snd (handleRequest ns now manifest executor_env
                 (post_process (Obj [(''number'', x)])) l)) = Some Running"
    by (rule posted_run_is_Running)
  have e: "(\<exists>result. inline_result ns now x = Inr result) \<longrightarrow>
        field (json_of (resp_body (fst (handleRequest ns now manifest executor_env
                 (post_process (Obj [(''number'', x)])) l)))) ''status'' = Str ''completed''"
  proof
    assume "\<exists>result. inline_result ns now x = Inr result"
    then obtain result where r: "inline_result ns now x = Inr result"
      by (elim exE) (rule that)
    show "field (json_of (resp_body (fst (handleRequest ns now manifest executor_env
                 (post_process (Obj [(''number'', x)])) l)))) ''status'' = Str ''completed''"
      by (subst handle_post_object [OF _ r, where iid = "instance_id (next_run l)"])
         (simp_all add: executor_env_def StartRun_params field_def)
  qed
  show ?thesis
    by (rule conjI [OF a], rule conjI [OF b], rule conjI [OF c], rule conjI [OF d], rule e)
qed

theorem process_route_reports_completed_or_error_witness:
  "req_pathname (post_process (Obj [(''number'', Num (Integer 5))]) :: safe_number request)
      = ''/api/process''
   \<and> req_method (post_process (Obj [(''number'', Num (Integer 5))]) :: safe_number request)
      = ''POST''
   \<and> handleRequest safe_integers ''2025-01-01T00:00:00.000Z'' Map.empty executor_env
        (post_process (Obj [(''number'', Num (Integer 5))])) empty_ledger
      = process_request safe_integers ''2025-01-01T00:00:00.000Z'' executor_env
        (post_process (Obj [(''number'', Num (Integer 5))])) empty_ledger
   \<and> req_pathname (\<lparr>req_method = ''POST'', req_pathname = ''/process'',
          req_json = Inr (Obj [(''number'', Num (Integer 5))])\<rparr> :: safe_number request)
      = ''/process''
   \<and> fetch safe_integers ''2025-01-01T00:00:00.000Z'' executor_env
        \<lparr>req_method = ''POST'', req_pathname = ''/process'',
         req_json = Inr (Obj [(''number'', Num (Integer 5))])\<rparr> empty_ledger
      = process_request safe_integers ''2025-01-01T00:00:00.000Z'' executor_env
        \<lparr>req_method = ''POST'', req_pathname = ''/process'',
         req_json = Inr (Obj [(''number'', Num (Integer 5))])\<rparr> empty_ledger
   \<and> (\<exists>result. inline_result safe_integers ''2025-01-01T00:00:00.000Z'' (Num (Integer 5))
         = Inr result)
   \<and> field (json_of (resp_body (fst (handleRequest safe_integers ''2025-01-01T00:00:00.000Z''
         Map.empty executor_env (post_process (Obj [(''number'', Num (Integer 5))]))
         empty_ledger)))) ''status'' = Str ''completed''
   \<and> status 0 (snd (handleRequest safe_integers ''2025-01-01T00:00:00.000Z''
         Map.empty executor_env (post_process (Obj [(''number'', Num (Integer 5))]))
         empty_ledger)) = Some Running"
proof -
  let ?sep = "\<lparr>req_method = ''POST'', req_pathname = ''/process'',
          req_json = Inr (Obj [(''number'', Num (Integer 5))])\<rparr> :: safe_number request"
  have a: "req_pathname (post_process (Obj [(''number'', Num (Integer 5))]) :: safe_number request)
      = ''/api/process''
   \<and> req_method (post_process (Obj [(''number'', Num (Integer 5))]) :: safe_number request)
      = ''POST''"
    by (simp add: post_process_def)
  have a': "req_pathname ?sep = ''/process'' \<and> req_method ?sep = ''POST''"
    by simp
  have b: "\<exists>result. inline_result safe_integers ''2025-01-01T00:00:00.000Z'' (Num (Integer 5))
         = Inr result"
    by (simp add: inline_result_valid)
  have z: "next_run (empty_ledger :: safe_number ledger) = 0"
    by (simp add: empty_ledger_def)
  note t = process_route_reports_completed_or_error
    [where ns = safe_integers and now = "''2025-01-01T00:00:00.000Z''" and env = executor_env
       and req = "post_process (Obj [(''number'', Num (Integer 5))])" and w = empty_ledger
       and manifest = Map.empty and l = empty_ledger and x = "Num (Integer 5)", unfolded z]
  note t' = process_route_reports_completed_or_error
    [where ns = safe_integers and now = "''2025-01-01T00:00:00.000Z''" and env = executor_env
       and req = ?sep and w = empty_ledger]
  note c = t [THEN conjunct2, THEN conjunct1, THEN mp, OF a]
  note c' = t' [THEN conjunct2, THEN conjunct2, THEN conjunct1, THEN mp, OF a']
  note d = t [THEN conjunct2, THEN conjunct2, THEN conjunct2, THEN conjunct1]
  note e = t [THEN conjunct2, THEN conjunct2, THEN conjunct2, THEN conjunct2, THEN mp, OF b]
  from a a' b c c' d e show ?thesis by simp
qed

subsection \<open>Replaying a completed run\<close>

lemma getStep_declared_update [simp]:
  "getStep rid name (l\<lparr>declared := d\<rparr>) = getStep rid name l"
  by (simp add: getStep_def)

lemma getStep_after_valid_run:
  "getStep rid ''step1-validate'' (after_valid_run ns now rid n l)
     = Some \<lparr>attempts = 1, step_status = Succeeded (step1_output ns n)\<rparr>"
  "getStep rid ''step2-add-one'' (after_valid_run ns now rid n l)
     = Some \<lparr>attempts = 1, step_status = Succeeded (step2_output ns n)\<rparr>"
  "getStep rid ''step3-multiply-two'' (after_valid_run ns now rid n l)
     = Some \<lparr>attempts = 1, step_status = Succeeded (step3_output ns n)\<rparr>"
  "getStep rid ''step4-multiply-three'' (after_valid_run ns now rid n l)
     = Some \<lparr>attempts = 1, step_status = Succeeded (step4_output ns n)\<rparr>"
  "getStep rid ''step5-finalize'' (after_valid_run ns now rid n l)
     = Some \<lparr>attempts = 1, step_status = Succeeded (final_output ns now n)\<rparr>"
  by (simp_all add: after_valid_run_def getStep_after_success)

lemma step_do_memo_after_valid_run:
  "getStep rid name l = Some \<lparr>attempts = 1, step_status = Succeeded v\<rparr> \<Longrightarrow>
   step_do p rid name compute (l\<lparr>declared := d\<rparr>) = (Inr v, l\<lparr>declared := d @ [(rid, name)]\<rparr>)"
  by (simp add: step_do_def)

lemma run_replay:
  assumes num: "destructure ''event.payload.params'' params ''number'' = Inr number"
  shows "MyWorkflow_run ns now' params (step_do p rid) (after_valid_run ns now rid n l) =
           (Inr (final_output ns now n),
            (after_valid_run ns now rid n l)
              \<lparr>declared := declared (after_valid_run ns now rid n l) @ map (Pair rid) step_names\<rparr>)"
proof -
  let ?L = "after_valid_run ns now rid n l"
  have L: "?L = ?L\<lparr>declared := declared ?L\<rparr>" by simp
  note g = getStep_after_valid_run [of rid ns now n l]
  note m = step_do_memo_after_valid_run
  have s1: "step_do p rid ''step1-validate'' (step1_validate ns number) ?L
      = (Inr (step1_output ns n), ?L\<lparr>declared := declared ?L @ [(rid, ''step1-validate'')]\<rparr>)"
    by (subst L) (rule m [OF g(1)])
  show ?thesis
    by (simp add: MyWorkflow_run_def num s1 m [OF g(2)] m [OF g(3)] m [OF g(4)] m [OF g(5)]
        step_names_def)
qed

lemma invoked_after_valid_run:
  "invoked (after_valid_run ns now rid n l) = invoked l @ map (Pair rid) step_names"
  by (simp add: after_valid_run_def invoked_after_success step_names_def)

lemma declared_after_valid_run:
  "declared (after_valid_run ns now rid n l) = declared l @ map (Pair rid) step_names"
  by (simp add: after_valid_run_def declared_after_success step_names_def)

lemma recordStepSuccess_idempotent:
  "getStep rid name l = Some r \<Longrightarrow> step_status r = Succeeded v \<Longrightarrow>
   recordStepSuccess rid name v' l = (v, l)"
  by (simp add: recordStepSuccess_def)

text \<open>
  C5. Once the record of step \<open>S\<close> of run \<open>rid\<close> is Succeeded with output \<open>v\<close>, the Step
  Context returns \<open>v\<close> for \<open>S\<close> whatever compute function it is given, without invoking it
  and without touching the Steps table, and \<open>recordStepSuccess\<close> with any other output
  changes nothing and returns \<open>v\<close>. A step without a record whose compute succeeds is
  invoked once; a second call for it returns the same output, leaves the record as it is,
  and the step's compute has been invoked once in total. Replaying \<^verbatim>\<open>MyWorkflow.run\<close> on the
  ledger a valid run left behind returns the result recorded first (its timestamp
  included) and invokes no compute function.
\<close>

theorem succeeded_step_is_memoized:
  "(getStep rid S l = Some r \<and> step_status r = Succeeded v \<longrightarrow>
      step_do p rid S compute l = (Inr v, l\<lparr>declared := declared l @ [(rid, S)]\<rparr>)
    \<and> recordStepSuccess rid S v' l = (v, l))
   \<and> (getStep rid S l = None \<and> compute () = Inr v \<longrightarrow>
      fst (step_do p rid S compute l) = Inr v
    \<and> fst (step_do p' rid S compute' (snd (step_do p rid S compute l))) = Inr v
    \<and> steps (snd (step_do p' rid S compute' (snd (step_do p rid S compute l))))
        = steps (snd (step_do p rid S compute l))
    \<and> getStep rid S (snd (step_do p rid S compute l))
        = Some \<lparr>attempts = 1, step_status = Succeeded v\<rparr>
    \<and> count_list (invoked (snd (step_do p' rid S compute' (snd (step_do p rid S compute l)))))
         (rid, S) = Suc (count_list (invoked l) (rid, S)))
   \<and> (fresh_run rid l \<and> valid_number ns number \<longrightarrow>
      fst (MyWorkflow_run ns now' (Obj [(''number'', number)]) (step_do p' rid)
             (snd (MyWorkflow_run ns now (Obj [(''number'', number)]) (step_do p rid) l)))
        = fst (MyWorkflow_run ns now (Obj [(''number'', number)]) (step_do p rid) l)
    \<and> steps (snd (MyWorkflow_run ns now' (Obj [(''number'', number)]) (step_do p' rid)
             (snd (MyWorkflow_run ns now (Obj [(''number'', number)]) (step_do p rid) l))))
        = steps (snd (MyWorkflow_run ns now (Obj [(''number'', number)]) (step_do p rid) l))
    \<and> invoked (snd (MyWorkflow_run ns now' (Obj [(''number'', number)]) (step_do p' rid)
             (snd (MyWorkflow_run ns now (Obj [(''number'', number)]) (step_do p rid) l))))
        = invoked l @ map (Pair rid) step_names)"
proof -
  have a: "getStep rid S l = Some r \<and> step_status r = Succeeded v \<longrightarrow>
      step_do p rid S compute l = (Inr v, l\<lparr>declared := declared l @ [(rid, S)]\<rparr>)
    \<and> recordStepSuccess rid S v' l = (v, l)"
    by (simp add: step_do_memo recordStepSuccess_idempotent)
  have b: "getStep rid S l = None \<and> compute () = Inr v \<longrightarrow>
      fst (step_do p rid S compute l) = Inr v
    \<and> fst (step_do p' rid S compute' (snd (step_do p rid S compute l))) = Inr v
    \<and> steps (snd (step_do p' rid S compute' (snd (step_do p rid S compute l))))
        = steps (snd (step_do p rid S compute l))
    \<and> getStep rid S (snd (step_do p rid S compute l))
        = Some \<lparr>attempts = 1, step_status = Succeeded v\<rparr>
    \<and> count_list (invoked (snd (step_do p' rid S compute' (snd (step_do p rid S compute l)))))
         (rid, S) = Suc (count_list (invoked l) (rid, S))"
  proof (intro impI)
    assume "getStep rid S l = None \<and> compute () = Inr v"
    then have first: "step_do p rid S compute l = (Inr v, after_success rid S v l)"
      by (simp add: step_do_after_success)
    have rec: "getStep rid S (after_success rid S v l)
        = Some \<lparr>attempts = 1, step_status = Succeeded v\<rparr>"
      by (simp add: getStep_after_success)
    have second: "step_do p' rid S compute' (after_success rid S v l)
        = (Inr v, (after_success rid S v l)
             \<lparr>declared := declared (after_success rid S v l) @ [(rid, S)]\<rparr>)"
      by (rule step_do_memo [OF rec]) simp
    show "fst (step_do p rid S compute l) = Inr v
    \<and> fst (step_do p' rid S compute' (snd (step_do p rid S compute l))) = Inr v
    \<and> steps (snd (step_do p' rid S compute' (snd (step_do p rid S compute l))))
        = steps (snd (step_do p rid S compute l))
    \<and> getStep rid S (snd (step_do p rid S compute l))
        = Some \<lparr>attempts = 1, step_status = Succeeded v\<rparr>
    \<and> count_list (invoked (snd (step_do p' rid S compute' (snd (step_do p rid S compute l)))))
         (rid, S) = Suc (count_list (invoked l) (rid, S))"
      by (simp add: first second rec invoked_after_success)
  qed
  have c: "fresh_run rid l \<and> valid_number ns number \<longrightarrow>
      fst (MyWorkflow_run ns now' (Obj [(''number'', number)]) (step_do p' rid)
             (snd (MyWorkflow_run ns now (Obj [(''number'', number)]) (step_do p rid) l)))
        = fst (MyWorkflow_run ns now (Obj [(''number'', number)]) (step_do p rid) l)
    \<and> steps (snd (MyWorkflow_run ns now' (Obj [(''number'', number)]) (step_do p' rid)
             (snd (MyWorkflow_run ns now (Obj [(''number'', number)]) (step_do p rid) l))))
        = steps (snd (MyWorkflow_run ns now (Obj [(''number'', number)]) (step_do p rid) l))
    \<and> invoked (snd (MyWorkflow_run ns now' (Obj [(''number'', number)]) (step_do p' rid)
             (snd (MyWorkflow_run ns now (Obj [(''number'', number)]) (step_do p rid) l))))
        = invoked l @ map (Pair rid) step_names"
  proof (intro impI)
    assume asm: "fresh_run rid l \<and> valid_number ns number"
    then obtain n where n: "number = Num n" "\<not> num_is_nan ns n"
      using step1_accepts by blast
    have first: "MyWorkflow_run ns now (Obj [(''number'', number)]) (step_do p rid) l
        = (Inr (final_output ns now n), after_valid_run ns now rid n l)"
      using asm n by (intro run_valid) simp_all
    have second: "MyWorkflow_run ns now' (Obj [(''number'', number)]) (step_do p' rid)
          (after_valid_run ns now rid n l)
        = (Inr (final_output ns now n),
            (after_valid_run ns now rid n l)
              \<lparr>declared := declared (after_valid_run ns now rid n l) @ map (Pair rid) step_names\<rparr>)"
      by (rule run_replay) simp
    show "fst (MyWorkflow_run ns now' (Obj [(''number'', number)]) (step_do p' rid)
             (snd (MyWorkflow_run ns now (Obj [(''number'', number)]) (step_do p rid) l)))
        = fst (MyWorkflow_run ns now (Obj [(''number'', number)]) (step_do p rid) l)
    \<and> steps (snd (MyWorkflow_run ns now' (Obj [(''number'', number)]) (step_do p' rid)
             (snd (MyWorkflow_run ns now (Obj [(''number'', number)]) (step_do p rid) l))))
        = steps (snd (MyWorkflow_run ns now (Obj [(''number'', number)]) (step_do p rid) l))
    \<and> invoked (snd (MyWorkflow_run ns now' (Obj [(''number'', number)]) (step_do p' rid)
             (snd (MyWorkflow_run ns now (Obj [(''number'', number)]) (step_do p rid) l))))
        = invoked l @ map (Pair rid) step_names"
      by (simp add: first second invoked_after_valid_run)
  qed
  from a b c show ?thesis by blast
qed

theorem succeeded_step_is_memoized_witness:
  "getStep 0 ''step1-validate'' (empty_ledger :: safe_number ledger) = None
   \<and> step1_validate safe_integers (Num (Integer 5)) () = Inr (step1_output safe_integers (Integer 5))
   \<and> fst (step_do \<lparr>max_attempts = 3, base_delay = 1, max_delay = 8\<rparr> 0 ''step1-validate''
             (\<lambda>u. Inr (Str ''another''))
             (snd (step_do \<lparr>max_attempts = 3, base_delay = 1, max_delay = 8\<rparr> 0 ''step1-validate''
                (step1_validate safe_integers (Num (Integer 5))) empty_ledger)))
       = Inr (step1_output safe_integers (Integer 5))
   \<and> count_list (invoked (snd (step_do \<lparr>max_attempts = 3, base_delay = 1, max_delay = 8\<rparr> 0
             ''step1-validate'' (\<lambda>u. Inr (Str ''another''))
             (snd (step_do \<lparr>max_attempts = 3, base_delay = 1, max_delay = 8\<rparr> 0 ''step1-validate''
                (step1_validate safe_integers (Num (Integer 5))) empty_ledger)))))
         (0, ''step1-validate'') = 1
   \<and> getStep 0 ''step1-validate''
         (after_success 0 ''step1-validate'' (step1_output safe_integers (Integer 5)) empty_ledger)
       = Some \<lparr>attempts = 1, step_status = Succeeded (step1_output safe_integers (Integer 5))\<rparr>
   \<and> recordStepSuccess 0 ''step1-validate'' (Str ''another'')
         (after_success 0 ''step1-validate'' (step1_output safe_integers (Integer 5)) empty_ledger)
       = (step1_output safe_integers (Integer 5),
          after_success 0 ''step1-validate'' (step1_output safe_integers (Integer 5)) empty_ledger)
   \<and> fresh_run 0 (empty_ledger :: safe_number ledger)
   \<and> valid_number safe_integers (Num (Integer 5))
   \<and> invoked (snd (MyWorkflow_run safe_integers ''2025-01-01T00:00:09.000Z''
          (Obj [(''number'', Num (Integer 5))])
          (step_do \<lparr>max_attempts = 3, base_delay = 1, max_delay = 8\<rparr> 0)
          (snd (MyWorkflow_run safe_integers ''2025-01-01T00:00:05.000Z''
             (Obj [(''number'', Num (Integer 5))])
             (step_do \<lparr>max_attempts = 3, base_delay = 1, max_delay = 8\<rparr> 0) empty_ledger))))
       = [(0, ''step1-validate''), (0, ''step2-add-one''), (0, ''step3-multiply-two''),
          (0, ''step4-multiply-three''), (0, ''step5-finalize'')]"
proof -
  let ?p = "\<lparr>max_attempts = 3, base_delay = 1, max_delay = 8\<rparr>"
  let ?o = "step1_output safe_integers (Integer 5)"
  let ?l1 = "after_success 0 ''step1-validate'' ?o (empty_ledger :: safe_number ledger)"
  have a: "getStep 0 ''step1-validate'' (empty_ledger :: safe_number ledger) = None
     \<and> step1_validate safe_integers (Num (Integer 5)) () = Inr ?o"
    by (simp add: getStep_def empty_ledger_def step1_valid safe_integers_def)
  have b: "getStep 0 ''step1-validate'' ?l1 = Some \<lparr>attempts = 1, step_status = Succeeded ?o\<rparr>
     \<and> step_status \<lparr>attempts = 1, step_status = Succeeded ?o\<rparr> = Succeeded ?o"
    by (simp add: getStep_after_success)
  have c: "fresh_run 0 (empty_ledger :: safe_number ledger)
     \<and> valid_number safe_integers (Num (Integer 5))"
    by (simp add: fresh_run_def getStep_def empty_ledger_def safe_integers_def)
  have i: "invoked (empty_ledger :: safe_number ledger) = []"
    by (simp add: empty_ledger_def)
  note t1 = succeeded_step_is_memoized
    [where rid = 0 and S = "''step1-validate''" and l = "empty_ledger :: safe_number ledger"
       and compute = "step1_validate safe_integers (Num (Integer 5))" and v = ?o
       and compute' = "\<lambda>u. Inr (Str ''another'')" and p = ?p and p' = ?p,
     THEN conjunct2, THEN conjunct1, THEN mp, OF a]
  note t2 = succeeded_step_is_memoized
    [where rid = 0 and S = "''step1-validate''" and l = ?l1 and v = ?o
       and r = "\<lparr>attempts = 1, step_status = Succeeded ?o\<rparr>" and v' = "Str ''another''",
     THEN conjunct1, THEN mp, OF b, THEN conjunct2]
  note t3 = succeeded_step_is_memoized
    [where rid = 0 and l = "empty_ledger :: safe_number ledger" and ns = safe_integers
       and number = "Num (Integer 5)" and p = ?p and p' = ?p
       and now = "''2025-01-01T00:00:05.000Z''" and now' = "''2025-01-01T00:00:09.000Z''",
     THEN conjunct2, THEN conjunct2, THEN mp, OF c, THEN conjunct2, THEN conjunct2]
  from a b c t1 [THEN conjunct2, THEN conjunct1]
    t1 [THEN conjunct2, THEN conjunct2, THEN conjunct2, THEN conjunct2] t2 t3
  show ?thesis by (simp add: i step_names_def)
qed

subsection \<open>Declared step names\<close>

lemma declared_step_do:
  "step_do p rid name compute l = (res, l') \<Longrightarrow> declared l' = declared l @ [(rid, name)]"
  by (auto simp: step_do_def attempt_step_def recordStepSuccess_def recordStepFailure_def
      getStep_def Let_def
      split: option.splits step_status.splits decision.splits prod.splits sum.splits)

lemma declared_run_cases:
  "declared (snd (MyWorkflow_run ns now params (step_do p rid) l)) = declared l
   \<or> declared (snd (MyWorkflow_run ns now params (step_do p rid) l))
        = declared l @ [(rid, ''step1-validate'')]
   \<or> declared (snd (MyWorkflow_run ns now params (step_do p rid) l))
        = declared l @ [(rid, ''step1-validate''), (rid, ''step2-add-one'')]
   \<or> declared (snd (MyWorkflow_run ns now params (step_do p rid) l))
        = declared l @ [(rid, ''step1-validate''), (rid, ''step2-add-one''),
                        (rid, ''step3-multiply-two'')]
   \<or> declared (snd (MyWorkflow_run ns now params (step_do p rid) l))
        = declared l @ [(rid, ''step1-validate''), (rid, ''step2-add-one''),
                        (rid, ''step3-multiply-two''), (rid, ''step4-multiply-three'')]
   \<or> declared (snd (MyWorkflow_run ns now params (step_do p rid) l))
        = declared l @ [(rid, ''step1-validate''), (rid, ''step2-add-one''),
                        (rid, ''step3-multiply-two''), (rid, ''step4-multiply-three''),
                        (rid, ''step5-finalize'')]"
proof (cases "destructure ''event.payload.params'' params ''number''")
  case (Inl e)
  then show ?thesis by (simp add: MyWorkflow_run_def)
next
  case (Inr number)
  obtain r1 l1 where s1: "step_do p rid ''step1-validate'' (step1_validate ns number) l = (r1, l1)"
    by (cases "step_do p rid ''step1-validate'' (step1_validate ns number) l") auto
  note d1 = declared_step_do [OF s1]
  show ?thesis
  proof (cases r1)
    case (Inl f)
    then show ?thesis using Inr s1 d1 by (simp add: MyWorkflow_run_def)
  next
    case o1: (Inr step1Result)
    obtain r2 l2 where s2: "step_do p rid ''step2-add-one'' (step2_add_one ns step1Result) l1 = (r2, l2)"
      by (cases "step_do p rid ''step2-add-one'' (step2_add_one ns step1Result) l1") auto
    note d2 = declared_step_do [OF s2]
    show ?thesis
    proof (cases r2)
      case (Inl f)
      then show ?thesis using Inr s1 o1 s2 d1 d2 by (simp add: MyWorkflow_run_def)
    next
      case o2: (Inr step2Result)
      obtain r3 l3 where s3: "step_do p rid ''step3-multiply-two''
          (step3_multiply_two ns step2Result) l2 = (r3, l3)"
        by (cases "step_do p rid ''step3-multiply-two'' (step3_multiply_two ns step2Result) l2") auto
      note d3 = declared_step_do [OF s3]
      show ?thesis
      proof (cases r3)
        case (Inl f)
        then show ?thesis using Inr s1 o1 s2 o2 s3 d1 d2 d3 by (simp add: MyWorkflow_run_def)
      next
        case o3: (Inr step3Result)
        obtain r4 l4 where s4: "step_do p rid ''step4-multiply-three''
            (step4_multiply_three ns step3Result) l3 = (r4, l4)"
          by (cases "step_do p rid ''step4-multiply-three'' (step4_multiply_three ns step3Result) l3")
             auto
        note d4 = declared_step_do [OF s4]
        show ?thesis
        proof (cases r4)
          case (Inl f)
          then show ?thesis using Inr s1 o1 s2 o2 s3 o3 s4 d1 d2 d3 d4
            by (simp add: MyWorkflow_run_def)
        next
          case o4: (Inr step4Result)
          obtain r5 l5 where s5: "step_do p rid ''step5-finalize''
              (step5_finalize ns now number step1Result step2Result step3Result step4Result) l4
                = (r5, l5)"
            by (cases "step_do p rid ''step5-finalize''
              (step5_finalize ns now number step1Result step2Result step3Result step4Result) l4")
               auto
          note d5 = declared_step_do [OF s5]
          show ?thesis using Inr s1 o1 s2 o2 s3 o3 s4 o4 s5 d1 d2 d3 d4 d5
            by (simp add: MyWorkflow_run_def)
        qed
      qed
    qed
  qed
qed

text \<open>
  C6. Whatever the input, the policy and the ledger, the step names one execution of
  \<^verbatim>\<open>MyWorkflow.run\<close> passes to \<^verbatim>\<open>step.do\<close> are an initial segment of the five names
  \<^verbatim>\<open>step1-validate\<close>, \<^verbatim>\<open>step2-add-one\<close>, \<^verbatim>\<open>step3-multiply-two\<close>, \<^verbatim>\<open>step4-multiply-three\<close>,
  \<^verbatim>\<open>step5-finalize\<close>, in that order; these are pairwise distinct, so no name is declared
  twice in one run.
\<close>

theorem declared_step_names_distinct:
  "(\<exists>k. k \<le> length step_names
        \<and> declared (snd (MyWorkflow_run ns now params (step_do p rid) l))
            = declared l @ map (Pair rid) (take k step_names))
   \<and> distinct (drop (length (declared l))
                 (declared (snd (MyWorkflow_run ns now params (step_do p rid) l))))
   \<and> distinct step_names
   \<and> step_names = [''step1-validate'', ''step2-add-one'', ''step3-multiply-two'',
                    ''step4-multiply-three'', ''step5-finalize'']"
proof -
  let ?d = "declared (snd (MyWorkflow_run ns now params (step_do p rid) l))"
  have n: "distinct step_names" by (simp add: step_names_def)
  have k: "\<exists>k. k \<le> length step_names \<and> ?d = declared l @ map (Pair rid) (take k step_names)"
    using declared_run_cases [of ns now params p rid l]
  proof (elim disjE)
    assume "?d = declared l"
    then show ?thesis by (intro exI [of _ 0]) simp
  next
    assume "?d = declared l @ [(rid, ''step1-validate'')]"
    then show ?thesis by (intro exI [of _ 1]) (simp add: step_names_def)
  next
    assume "?d = declared l @ [(rid, ''step1-validate''), (rid, ''step2-add-one'')]"
    then show ?thesis by (intro exI [of _ 2]) (simp add: step_names_def)
  next
    assume "?d = declared l @ [(rid, ''step1-validate''), (rid, ''step2-add-one''),
                        (rid, ''step3-multiply-two'')]"
    then show ?thesis by (intro exI [of _ 3]) (simp add: step_names_def)
  next
    assume "?d = declared l @ [(rid, ''step1-validate''), (rid, ''step2-add-one''),
                        (rid, ''step3-multiply-two''), (rid, ''step4-multiply-three'')]"
    then show ?thesis by (intro exI [of _ 4]) (simp add: step_names_def)
  next
    assume "?d = declared l @ [(rid, ''step1-validate''), (rid, ''step2-add-one''),
                        (rid, ''step3-multiply-two''), (rid, ''step4-multiply-three''),
                        (rid, ''step5-finalize'')]"
    then show ?thesis by (intro exI [of _ 5]) (simp add: step_names_def)
  qed
  then obtain k where kk: "?d = declared l @ map (Pair rid) (take k step_names)" by blast
  have "distinct (map (Pair rid) (take k step_names))"
    using n by (simp add: distinct_map inj_on_def)
  then have d: "distinct (drop (length (declared l)) ?d)" by (simp add: kk)
  from k d n show ?thesis by (simp add: step_names_def)
qed

lemma step1_succeeds_iff:
  "(\<exists>out. step1_validate ns number () = Inr out) = valid_number ns number"
proof (cases "valid_number ns number")
  case True
  then obtain n where "number = Num n" "\<not> num_is_nan ns n" using step1_accepts by blast
  then show ?thesis by (simp add: step1_valid)
next
  case False
  then show ?thesis by (simp add: step1_rejects)
qed

text \<open>
  C7. On a run without step records and an input that passes validation, the compute
  functions are invoked in program order, each exactly once, and the recorded outputs
  chain: the value of step 2 is the value of step 1 plus 1, the value of step 3 the value of
  step 2 times 2, the value of step 4 the value of step 3 times 3, and \<^verbatim>\<open>finalResult\<close> is
  the value of step 4. When validation fails, step 1 is the only step whose compute
  function is ever invoked.
\<close>

theorem steps_run_in_program_order:
  "(fresh_run rid l \<and> valid_number ns number \<longrightarrow>
      (\<exists>result o1 o2 o3 o4 n1 n2 n3 n4.
          fst (MyWorkflow_run ns now (Obj [(''number'', number)]) (step_do p rid) l) = Inr result
        \<and> invoked (snd (MyWorkflow_run ns now (Obj [(''number'', number)]) (step_do p rid) l))
            = invoked l @ [(rid, ''step1-validate''), (rid, ''step2-add-one''),
                           (rid, ''step3-multiply-two''), (rid, ''step4-multiply-three''),
                           (rid, ''step5-finalize'')]
        \<and> getStep rid ''step1-validate''
              (snd (MyWorkflow_run ns now (Obj [(''number'', number)]) (step_do p rid) l))
            = Some \<lparr>attempts = 1, step_status = Succeeded o1\<rparr>
        \<and> getStep rid ''step2-add-one''
              (snd (MyWorkflow_run ns now (Obj [(''number'', number)]) (step_do p rid) l))
            = Some \<lparr>attempts = 1, step_status = Succeeded o2\<rparr>
        \<and> getStep rid ''step3-multiply-two''
              (snd (MyWorkflow_run ns now (Obj [(''number'', number)]) (step_do p rid) l))
            = Some \<lparr>attempts = 1, step_status = Succeeded o3\<rparr>
        \<and> getStep rid ''step4-multiply-three''
              (snd (MyWorkflow_run ns now (Obj [(''number'', number)]) (step_do p rid) l))
            = Some \<lparr>attempts = 1, step_status = Succeeded o4\<rparr>
        \<and> getStep rid ''step5-finalize''
              (snd (MyWorkflow_run ns now (Obj [(''number'', number)]) (step_do p rid) l))
            = Some \<lparr>attempts = 1, step_status = Succeeded result\<rparr>
        \<and> number = Num n1
        \<and> field o1 ''value'' = Num n1
        \<and> field o2 ''value'' = Num n2 \<and> n2 = num_add ns n1 (num_lit ns 1)
        \<and> field o3 ''value'' = Num n3 \<and> n3 = num_mul ns n2 (num_lit ns 2)
        \<and> field o4 ''value'' = Num n4 \<and> n4 = num_mul ns n3 (num_lit ns 3)
        \<and> field result ''finalResult'' = Num n4))
   \<and> (fresh_run rid l \<and> \<not> valid_number ns number \<longrightarrow>
        invoked (snd (MyWorkflow_run ns now (Obj [(''number'', number)]) (step_do p rid) l))
          = invoked l @ replicate (max 1 (max_attempts p)) (rid, ''step1-validate''))"
proof (rule conjI; rule impI)
  assume asm: "fresh_run rid l \<and> valid_number ns number"
  then obtain n where n: "number = Num n" "\<not> num_is_nan ns n"
    using step1_accepts by blast
  have r: "MyWorkflow_run ns now (Obj [(''number'', Num n)]) (step_do p rid) l
      = (Inr (final_output ns now n), after_valid_run ns now rid n l)"
    using asm n by (intro run_valid) simp_all
  show "\<exists>result o1 o2 o3 o4 n1 n2 n3 n4.
          fst (MyWorkflow_run ns now (Obj [(''number'', number)]) (step_do p rid) l) = Inr result
        \<and> invoked (snd (MyWorkflow_run ns now (Obj [(''number'', number)]) (step_do p rid) l))
            = invoked l @ [(rid, ''step1-validate''), (rid, ''step2-add-one''),
                           (rid, ''step3-multiply-two''), (rid, ''step4-multiply-three''),
                           (rid, ''step5-finalize'')]
        \<and> getStep rid ''step1-validate''
              (snd (MyWorkflow_run ns now (Obj [(''number'', number)]) (step_do p rid) l))
            = Some \<lparr>attempts = 1, step_status = Succeeded o1\<rparr>
        \<and> getStep rid ''step2-add-one''
              (snd (MyWorkflow_run ns now (Obj [(''number'', number)]) (step_do p rid) l))
            = Some \<lparr>attempts = 1, step_status = Succeeded o2\<rparr>
        \<and> getStep rid ''step3-multiply-two''
              (snd (MyWorkflow_run ns now (Obj [(''number'', number)]) (step_do p rid) l))
            = Some \<lparr>attempts = 1, step_status = Succeeded o3\<rparr>
        \<and> getStep rid ''step4-multiply-three''
              (snd (MyWorkflow_run ns now (Obj [(''number'', number)]) (step_do p rid) l))
            = Some \<lparr>attempts = 1, step_status = Succeeded o4\<rparr>
        \<and> getStep rid ''step5-finalize''
              (snd (MyWorkflow_run ns now (Obj [(''number'', number)]) (step_do p rid) l))
            = Some \<lparr>attempts = 1, step_status = Succeeded result\<rparr>
        \<and> number = Num n1
        \<and> field o1 ''value'' = Num n1
        \<and> field o2 ''value'' = Num n2 \<and> n2 = num_add ns n1 (num_lit ns 1)
        \<and> field o3 ''value'' = Num n3 \<and> n3 = num_mul ns n2 (num_lit ns 2)
        \<and> field o4 ''value'' = Num n4 \<and> n4 = num_mul ns n3 (num_lit ns 3)
        \<and> field result ''finalResult'' = Num n4"
    unfolding n r
    by (rule exI [of _ "final_output ns now n"], rule exI [of _ "step1_output ns n"],
        rule exI [of _ "step2_output ns n"], rule exI [of _ "step3_output ns n"],
        rule exI [of _ "step4_output ns n"], rule exI [of _ n],
        rule exI [of _ "num_add ns n (num_lit ns 1)"],
        rule exI [of _ "num_mul ns (num_add ns n (num_lit ns 1)) (num_lit ns 2)"],
        rule exI [of _ "num_mul ns (num_mul ns (num_add ns n (num_lit ns 1)) (num_lit ns 2))
                          (num_lit ns 3)"])
       (simp add: getStep_after_valid_run invoked_after_valid_run step_names_def field_def
          step1_output_def step2_output_def step3_output_def step4_output_def final_output_def)
next
  assume asm: "fresh_run rid l \<and> \<not> valid_number ns number"
  then have f: "fresh_run rid l" and b: "\<not> valid_number ns number" by simp_all
  have "MyWorkflow_run ns now (Obj [(''number'', number)]) (step_do p rid) l =
           (Inl (StepFailed ''step1-validate'' (Error err_invalid_number)),
            after_failure rid ''step1-validate'' (Error err_invalid_number)
              (max 1 (max_attempts p)) l)"
    by (rule run_invalid [OF f _ b]) simp
  then show "invoked (snd (MyWorkflow_run ns now (Obj [(''number'', number)]) (step_do p rid) l))
          = invoked l @ replicate (max 1 (max_attempts p)) (rid, ''step1-validate'')"
    by (simp add: invoked_after_failure)
qed

theorem steps_run_in_program_order_witness:
  "fresh_run 0 (empty_ledger :: safe_number ledger)
   \<and> valid_number safe_integers (Num (Integer 5))
   \<and> \<not> valid_number safe_integers (Str ''abc'')
   \<and> (\<exists>result o1 o2 o3 o4.
          fst (MyWorkflow_run safe_integers ''2025-01-01T00:00:05.000Z''
                 (Obj [(''number'', Num (Integer 5))])
                 (step_do \<lparr>max_attempts = 3, base_delay = 1, max_delay = 8\<rparr> 0) empty_ledger)
            = Inr result
        \<and> invoked (snd (MyWorkflow_run safe_integers ''2025-01-01T00:00:05.000Z''
                 (Obj [(''number'', Num (Integer 5))])
                 (step_do \<lparr>max_attempts = 3, base_delay = 1, max_delay = 8\<rparr> 0) empty_ledger))
            = [(0, ''step1-validate''), (0, ''step2-add-one''), (0, ''step3-multiply-two''),
               (0, ''step4-multiply-three''), (0, ''step5-finalize'')]
        \<and> getStep 0 ''step1-validate'' (snd (MyWorkflow_run safe_integers ''2025-01-01T00:00:05.000Z''
                 (Obj [(''number'', Num (Integer 5))])
                 (step_do \<lparr>max_attempts = 3, base_delay = 1, max_delay = 8\<rparr> 0) empty_ledger))
            = Some \<lparr>attempts = 1, step_status = Succeeded o1\<rparr>
        \<and> getStep 0 ''step2-add-one'' (snd (MyWorkflow_run safe_integers ''2025-01-01T00:00:05.000Z''
                 (Obj [(''number'', Num (Integer 5))])
                 (step_do \<lparr>max_attempts = 3, base_delay = 1, max_delay = 8\<rparr> 0) empty_ledger))
            = Some \<lparr>attempts = 1, step_status = Succeeded o2\<rparr>
        \<and> getStep 0 ''step3-multiply-two'' (snd (MyWorkflow_run safe_integers ''2025-01-01T00:00:05.000Z''
                 (Obj [(''number'', Num (Integer 5))])
                 (step_do \<lparr>max_attempts = 3, base_delay = 1, max_delay = 8\<rparr> 0) empty_ledger))
            = Some \<lparr>attempts = 1, step_status = Succeeded o3\<rparr>
        \<and> getStep 0 ''step4-multiply-three'' (snd (MyWorkflow_run safe_integers ''2025-01-01T00:00:05.000Z''
                 (Obj [(''number'', Num (Integer 5))])
                 (step_do \<lparr>max_attempts = 3, base_delay = 1, max_delay = 8\<rparr> 0) empty_ledger))
            = Some \<lparr>attempts = 1, step_status = Succeeded o4\<rparr>
        \<and> field o1 ''value'' = Num (Integer 5)
        \<and> field o2 ''value'' = Num (Integer 6)
        \<and> field o3 ''value'' = Num (Integer 12)
        \<and> field o4 ''value'' = Num (Integer 36)
        \<and> field result ''finalResult'' = Num (Integer 36))
   \<and> invoked (snd (MyWorkflow_run safe_integers ''2025-01-01T00:00:05.000Z''
                 (Obj [(''number'', Str ''abc'')])
                 (step_do \<lparr>max_attempts = 3, base_delay = 1, max_delay = 8\<rparr> 0) empty_ledger))
       = [(0, ''step1-validate''), (0, ''step1-validate''), (0, ''step1-validate'')]"
proof -
  let ?p = "\<lparr>max_attempts = 3, base_delay = 1, max_delay = 8\<rparr>"
  have a: "fresh_run 0 (empty_ledger :: safe_number ledger)
     \<and> valid_number safe_integers (Num (Integer 5))"
    by (simp add: fresh_run_def getStep_def empty_ledger_def safe_integers_def)
  have b: "fresh_run 0 (empty_ledger :: safe_number ledger)
     \<and> \<not> valid_number safe_integers (Str ''abc'')"
    by (simp add: fresh_run_def getStep_def empty_ledger_def)
  have i: "invoked (empty_ledger :: safe_number ledger) = []"
    by (simp add: empty_ledger_def)
  note t1 = steps_run_in_program_order
    [where rid = 0 and l = "empty_ledger :: safe_number ledger" and ns = safe_integers
       and number = "Num (Integer 5)" and p = ?p and now = "''2025-01-01T00:00:05.000Z''",
     THEN conjunct1, THEN mp, OF a]
  note t2 = steps_run_in_program_order
    [where rid = 0 and l = "empty_ledger :: safe_number ledger" and ns = safe_integers
       and number = "Str ''abc''" and p = ?p and now = "''2025-01-01T00:00:05.000Z''",
     THEN conjunct2, THEN mp, OF b]
  let ?r = "MyWorkflow_run safe_integers ''2025-01-01T00:00:05.000Z''
              (Obj [(''number'', Num (Integer 5))]) (step_do ?p 0) empty_ledger"
  from t1 obtain result o1 o2 o3 o4 n1 n2 n3 n4 where w:
    "fst ?r = Inr result
     \<and> invoked (snd ?r) = invoked (empty_ledger :: safe_number ledger)
              @ [(0, ''step1-validate''), (0, ''step2-add-one''), (0, ''step3-multiply-two''),
               (0, ''step4-multiply-three''), (0, ''step5-finalize'')]
     \<and> getStep 0 ''step1-validate'' (snd ?r) = Some \<lparr>attempts = 1, step_status = Succeeded o1\<rparr>
     \<and> getStep 0 ''step2-add-one'' (snd ?r) = Some \<lparr>attempts = 1, step_status = Succeeded o2\<rparr>
     \<and> getStep 0 ''step3-multiply-two'' (snd ?r) = Some \<lparr>attempts = 1, step_status = Succeeded o3\<rparr>
     \<and> getStep 0 ''step4-multiply-three'' (snd ?r) = Some \<lparr>attempts = 1, step_status = Succeeded o4\<rparr>
     \<and> getStep 0 ''step5-finalize'' (snd ?r) = Some \<lparr>attempts = 1, step_status = Succeeded result\<rparr>
     \<and> Num (Integer 5) = Num n1
     \<and> field o1 ''value'' = Num n1
     \<and> field o2 ''value'' = Num n2 \<and> n2 = num_add safe_integers n1 (num_lit safe_integers 1)
     \<and> field o3 ''value'' = Num n3 \<and> n3 = num_mul safe_integers n2 (num_lit safe_integers 2)
     \<and> field o4 ''value'' = Num n4 \<and> n4 = num_mul safe_integers n3 (num_lit safe_integers 3)
     \<and> field result ''finalResult'' = Num n4"
    by (elim exE) (rule that)
  have n1: "n1 = Integer 5" using w by simp
  have n2: "n2 = Integer 6" using w n1 by (simp add: safe_integers_def)
  have n3: "n3 = Integer 12" using w n2 by (simp add: safe_integers_def)
  have n4: "n4 = Integer 36" using w n3 by (simp add: safe_integers_def)
  have "\<exists>result o1 o2 o3 o4.
          fst (MyWorkflow_run safe_integers ''2025-01-01T00:00:05.000Z''
                 (Obj [(''number'', Num (Integer 5))]) (step_do ?p 0) empty_ledger) = Inr result
        \<and> invoked (snd (MyWorkflow_run safe_integers ''2025-01-01T00:00:05.000Z''
                 (Obj [(''number'', Num (Integer 5))]) (step_do ?p 0) empty_ledger))
            = [(0, ''step1-validate''), (0, ''step2-add-one''), (0, ''step3-multiply-two''),
               (0, ''step4-multiply-three''), (0, ''step5-finalize'')]
        \<and> getStep 0 ''step1-validate'' (snd (MyWorkflow_run safe_integers ''2025-01-01T00:00:05.000Z''
                 (Obj [(''number'', Num (Integer 5))]) (step_do ?p 0) empty_ledger))
            = Some \<lparr>attempts = 1, step_status = Succeeded o1\<rparr>
        \<and> getStep 0 ''step2-add-one'' (snd (MyWorkflow_run safe_integers ''2025-01-01T00:00:05.000Z''
                 (Obj [(''number'', Num (Integer 5))]) (step_do ?p 0) empty_ledger))
            = Some \<lparr>attempts = 1, step_status = Succeeded o2\<rparr>
        \<and> getStep 0 ''step3-multiply-two'' (snd (MyWorkflow_run safe_integers ''2025-01-01T00:00:05.000Z''
                 (Obj [(''number'', Num (Integer 5))]) (step_do ?p 0) empty_ledger))
            = Some \<lparr>attempts = 1, step_status = Succeeded o3\<rparr>
        \<and> getStep 0 ''step4-multiply-three'' (snd (MyWorkflow_run safe_integers ''2025-01-01T00:00:05.000Z''
                 (Obj [(''number'', Num (Integer 5))]) (step_do ?p 0) empty_ledger))
            = Some \<lparr>attempts = 1, step_status = Succeeded o4\<rparr>
        \<and> field o1 ''value'' = Num (Integer 5)
        \<and> field o2 ''value'' = Num (Integer 6)
        \<and> field o3 ''value'' = Num (Integer 12)
        \<and> field o4 ''value'' = Num (Integer 36)
        \<and> field result ''finalResult'' = Num (Integer 36)"
    by (insert w n1 n2 n3 n4 i, rule exI [of _ result], rule exI [of _ o1],
        rule exI [of _ o2], rule exI [of _ o3], rule exI [of _ o4]) simp
  moreover have "invoked (snd (MyWorkflow_run safe_integers ''2025-01-01T00:00:05.000Z''
                 (Obj [(''number'', Str ''abc'')]) (step_do ?p 0) empty_ledger))
       = [(0, ''step1-validate''), (0, ''step1-validate''), (0, ''step1-validate'')]"
    using t2 by (simp add: i numeral_3_eq_3)
  ultimately show ?thesis using a b by blast
qed

text \<open>
  C9. On a run without step records, the run fails only in step 1: once the compute
  function of \<^verbatim>\<open>step1-validate\<close> has returned, the closures of steps 2 to 5 return on the
  values handed to them and the run returns its final result, with all five steps recorded
  Succeeded at their first attempt; and whatever failure the run returns is the StepFailed
  of \<^verbatim>\<open>step1-validate\<close> wrapping the validation error.
\<close>

theorem only_validation_step_fails:
  "(fresh_run rid l \<and> step1_validate ns number () = Inr o1 \<longrightarrow>
      (\<exists>o2 o3 o4 result.
          step2_add_one ns o1 () = Inr o2
        \<and> step3_multiply_two ns o2 () = Inr o3
        \<and> step4_multiply_three ns o3 () = Inr o4
        \<and> step5_finalize ns now number o1 o2 o3 o4 () = Inr result
        \<and> fst (MyWorkflow_run ns now (Obj [(''number'', number)]) (step_do p rid) l) = Inr result
        \<and> map (\<lambda>name. map_option step_status
                  (getStep rid name
                     (snd (MyWorkflow_run ns now (Obj [(''number'', number)]) (step_do p rid) l))))
              step_names
            = [Some (Succeeded o1), Some (Succeeded o2), Some (Succeeded o3),
               Some (Succeeded o4), Some (Succeeded result)]))
   \<and> (fresh_run rid l
        \<and> fst (MyWorkflow_run ns now (Obj [(''number'', number)]) (step_do p rid) l) = Inl f \<longrightarrow>
      f = StepFailed ''step1-validate'' (Error err_invalid_number)
      \<and> step1_validate ns number () = Inl (Error err_invalid_number))"
proof (rule conjI; rule impI)
  assume asm: "fresh_run rid l \<and> step1_validate ns number () = Inr o1"
  then have "valid_number ns number" using step1_succeeds_iff [of ns number] by blast
  then obtain n where n: "number = Num n" "\<not> num_is_nan ns n"
    using step1_accepts by blast
  have o1: "o1 = step1_output ns n" using asm n by (simp add: step1_valid)
  have r: "MyWorkflow_run ns now (Obj [(''number'', Num n)]) (step_do p rid) l
      = (Inr (final_output ns now n), after_valid_run ns now rid n l)"
    using asm n by (intro run_valid) simp_all
  show "\<exists>o2 o3 o4 result.
          step2_add_one ns o1 () = Inr o2
        \<and> step3_multiply_two ns o2 () = Inr o3
        \<and> step4_multiply_three ns o3 () = Inr o4
        \<and> step5_finalize ns now number o1 o2 o3 o4 () = Inr result
        \<and> fst (MyWorkflow_run ns now (Obj [(''number'', number)]) (step_do p rid) l) = Inr result
        \<and> map (\<lambda>name. map_option step_status
                  (getStep rid name
                     (snd (MyWorkflow_run ns now (Obj [(''number'', number)]) (step_do p rid) l))))
              step_names
            = [Some (Succeeded o1), Some (Succeeded o2), Some (Succeeded o3),
               Some (Succeeded o4), Some (Succeeded result)]"
    unfolding r o1 n
    by (rule exI [of _ "step2_output ns n"], rule exI [of _ "step3_output ns n"],
        rule exI [of _ "step4_output ns n"], rule exI [of _ "final_output ns now n"])
       (simp add: step2_valid step3_valid step4_valid step5_valid getStep_after_valid_run
          step_names_def)
next
  assume asm: "fresh_run rid l
        \<and> fst (MyWorkflow_run ns now (Obj [(''number'', number)]) (step_do p rid) l) = Inl f"
  then have f: "fresh_run rid l" by simp
  have bad: "\<not> valid_number ns number"
  proof
    assume "valid_number ns number"
    then obtain n where n: "number = Num n" "\<not> num_is_nan ns n"
      using step1_accepts by blast
    have "MyWorkflow_run ns now (Obj [(''number'', number)]) (step_do p rid) l
      = (Inr (final_output ns now n), after_valid_run ns now rid n l)"
      using f n by (intro run_valid) simp_all
    with asm show False by simp
  qed
  have "MyWorkflow_run ns now (Obj [(''number'', number)]) (step_do p rid) l =
           (Inl (StepFailed ''step1-validate'' (Error err_invalid_number)),
            after_failure rid ''step1-validate'' (Error err_invalid_number)
              (max 1 (max_attempts p)) l)"
    by (rule run_invalid [OF f _ bad]) simp
  with asm bad show "f = StepFailed ''step1-validate'' (Error err_invalid_number)
      \<and> step1_validate ns number () = Inl (Error err_invalid_number)"
    by (simp add: step1_rejects)
qed

theorem only_validation_step_fails_witness:
  "fresh_run 0 (empty_ledger :: safe_number ledger)
   \<and> step1_validate safe_integers (Num (Integer 5)) () = Inr (step1_output safe_integers (Integer 5))
   \<and> (\<exists>result.
         fst (MyWorkflow_run safe_integers ''2025-01-01T00:00:05.000Z''
                (Obj [(''number'', Num (Integer 5))])
                (step_do \<lparr>max_attempts = 3, base_delay = 1, max_delay = 8\<rparr> 0) empty_ledger)
           = Inr result)
   \<and> fst (MyWorkflow_run safe_integers ''2025-01-01T00:00:05.000Z''
                (Obj [(''number'', Null)])
                (step_do \<lparr>max_attempts = 3, base_delay = 1, max_delay = 8\<rparr> 0) empty_ledger)
       = Inl (StepFailed ''step1-validate'' (Error err_invalid_number))
   \<and> step1_validate safe_integers Null () = Inl (Error err_invalid_number)"
proof -
  let ?p = "\<lparr>max_attempts = 3, base_delay = 1, max_delay = 8\<rparr>"
  have f: "fresh_run 0 (empty_ledger :: safe_number ledger)"
    by (simp add: fresh_run_def getStep_def empty_ledger_def)
  have s: "step1_validate safe_integers (Num (Integer 5)) ()
      = Inr (step1_output safe_integers (Integer 5))"
    by (simp add: step1_valid safe_integers_def)
  have b: "fst (MyWorkflow_run safe_integers ''2025-01-01T00:00:05.000Z''
                (Obj [(''number'', Null)]) (step_do ?p 0) empty_ledger)
       = Inl (StepFailed ''step1-validate'' (Error err_invalid_number))"
    by (subst run_invalid [OF f, where v = Null]) simp_all
  note t1 = only_validation_step_fails
    [where rid = 0 and l = "empty_ledger :: safe_number ledger" and ns = safe_integers
       and number = "Num (Integer 5)" and p = ?p and now = "''2025-01-01T00:00:05.000Z''"
       and ?o1.0 = "step1_output safe_integers (Integer 5)",
     THEN conjunct1, THEN mp, OF conjI [OF f s]]
  note t2 = only_validation_step_fails
    [where rid = 0 and l = "empty_ledger :: safe_number ledger" and ns = safe_integers
       and number = Null and p = ?p and now = "''2025-01-01T00:00:05.000Z''"
       and f = "StepFailed ''step1-validate'' (Error err_invalid_number)",
     THEN conjunct2, THEN mp, OF conjI [OF f b], THEN conjunct2]
  from t1 have "\<exists>result.
         fst (MyWorkflow_run safe_integers ''2025-01-01T00:00:05.000Z''
                (Obj [(''number'', Num (Integer 5))]) (step_do ?p 0) empty_ledger) = Inr result"
    by blast
  with f s b t2 show ?thesis by simp
qed

subsection \<open>Conversions in the inline computation\<close>

lemma ToPrimitive_primitive: "is_primitive v \<Longrightarrow> ToPrimitive ns v = Inr v"
  by (cases v) simp_all

lemma ToPrimitive_result:
  assumes "ToPrimitive ns v = Inr prim"
  shows "is_primitive prim"
proof (cases v)
  case (Arr xs)
  with assms show ?thesis
    by (cases "ToString ns (Arr xs)") (auto simp del: ToString.simps)
next
  case (Obj kvs)
  with assms show ?thesis
    by (cases "ToString ns (Obj kvs)") (auto simp del: ToString.simps)
qed (use assms in auto)

lemma ToString_primitive: "is_primitive v \<Longrightarrow> \<exists>s. ToString ns v = Inr s"
  by (cases v) simp_all

lemma ToNumber_primitive: "is_primitive v \<Longrightarrow> \<exists>n. ToNumber ns v = Inr n"
  by (cases v) simp_all

lemma ToString_convertible:
  assumes "ToPrimitive ns v = Inr prim"
  shows "\<exists>s. ToString ns v = Inr s"
proof (cases v)
  case (Arr xs)
  with assms show ?thesis
    by (cases "ToString ns (Arr xs)") (simp_all del: ToString.simps)
next
  case (Obj kvs)
  with assms show ?thesis
    by (cases "ToString ns (Obj kvs)") (simp_all del: ToString.simps)
qed simp_all

lemma js_plus_throws: "ToPrimitive ns v = Inl e \<Longrightarrow> js_plus ns v y = Inl e"
  by (simp add: js_plus_def)

lemma js_plus_number_returns:
  assumes "ToPrimitive ns v = Inr prim"
  shows "\<exists>r. js_plus ns v (Num m) = Inr r \<and> is_primitive r"
proof -
  have p: "is_primitive prim" using assms by (rule ToPrimitive_result)
  obtain s where s: "ToString ns prim = Inr s" using ToString_primitive [OF p] by blast
  obtain n where n: "ToNumber ns prim = Inr n" using ToNumber_primitive [OF p] by blast
  show ?thesis using assms s n by (simp add: js_plus_def)
qed

lemma js_times_number_returns:
  "is_primitive v \<Longrightarrow> \<exists>n. js_times ns v (Num m) = Inr (Num n)"
  using ToNumber_primitive [of v ns] by (auto simp: js_times_def)

lemma inline_result_throws: "ToPrimitive ns v = Inl e \<Longrightarrow> inline_result ns now v = Inl e"
  by (simp add: inline_result_def js_plus_throws del: One_nat_def)

lemma inline_result_returns:
  assumes "ToPrimitive ns v = Inr prim"
  shows "\<exists>result. inline_result ns now v = Inr result"
proof -
  obtain step1 where s1: "js_plus ns v (Num (num_lit ns 1)) = Inr step1" "is_primitive step1"
    using js_plus_number_returns [OF assms] by blast
  obtain n2 where s2: "js_times ns step1 (Num (num_lit ns 2)) = Inr (Num n2)"
    using js_times_number_returns [OF s1(2)] by blast
  obtain n3 where s3: "js_times ns (Num n2) (Num (num_lit ns 3)) = Inr (Num n3)"
    using js_times_number_returns [of "Num n2"] by auto
  obtain sv where sv: "ToString ns v = Inr sv" using ToString_convertible [OF assms] by blast
  obtain t1 where t1: "ToString ns step1 = Inr t1" using ToString_primitive [OF s1(2)] by blast
  show ?thesis
    by (simp add: inline_result_def s1 s2 s3 sv t1 del: One_nat_def)
qed

lemma error_response_status: "resp_status (error_response e) = 500"
  by (simp add: error_response_def)

subsection \<open>Status of the process route\<close>

lemma get_prop_field:
  "body \<noteq> Null \<Longrightarrow> body \<noteq> Undefined \<Longrightarrow> get_prop body k = Inr (field body k)"
  by (cases body) (simp_all add: field_def)

lemma get_prop_throws_iff:
  "(\<exists>e. get_prop body k = Inl e) = (body = Null \<or> body = Undefined)"
  by (cases body) simp_all

lemma process_request_parse_error:
  "req_json req = Inl e \<Longrightarrow> process_request ns now env req w = (error_response e, w)"
  by (simp add: process_request_def)

lemma process_request_null:
  "req_json req = Inr body \<Longrightarrow> body = Null \<or> body = Undefined \<Longrightarrow>
   \<exists>e. process_request ns now env req w = (error_response e, w)"
  by (auto simp: process_request_def)

lemma process_request_object:
  assumes "req_json req = Inr body" "body \<noteq> Null" "body \<noteq> Undefined"
  shows "process_request ns now env req w =
     (case MY_WORKFLOW_create env (Obj [(''params'', Obj [(''number'', field body ''number'')])]) w of
        (Inl error, w') \<Rightarrow> (error_response error, w')
      | (Inr iid, w') \<Rightarrow>
     (case inline_result ns now (field body ''number'') of
        Inl error \<Rightarrow> (error_response error, w')
      | Inr finalResult \<Rightarrow>
          (\<lparr>resp_status = 200,
            resp_headers = (''Content-Type'', ''application/json'') # corsHeaders,
            resp_body = JsonBody (Obj [(''workflowId'', Str iid),
                                       (''status'', Str ''completed''),
                                       (''result'', finalResult)])\<rparr>, w')))"
  using assms by (simp add: process_request_def get_prop_field)

text \<open>
  C8, as stated, fails. The body \<^verbatim>\<open>null\<close> parses as JSON, and the POST carrying it is
  answered with HTTP 500: reading \<^verbatim>\<open>body.number\<close> throws inside the \<^verbatim>\<open>try\<close> block.
\<close>

theorem null_body_answered_500:
  "req_method (post_process Null :: safe_number request) = ''POST''
   \<and> req_pathname (post_process Null :: safe_number request) = ''/api/process''
   \<and> req_json (post_process Null :: safe_number request) = Inr Null
   \<and> resp_status (fst (handleRequest safe_integers ''2025-01-01T00:00:00.000Z'' Map.empty
          executor_env (post_process Null) empty_ledger)) = 500"
  by (simp add: post_process_def handleRequest_def process_request_def error_response_def)

text \<open>
  C8, amended. A POST to \<^verbatim>\<open>/api/process\<close> is answered with HTTP 500 exactly when something
  throws inside the \<^verbatim>\<open>try\<close> block: reading or parsing the body throws, the parsed body is
  \<^verbatim>\<open>null\<close> (so that reading \<^verbatim>\<open>body.number\<close> throws), \<^verbatim>\<open>MY_WORKFLOW.create\<close> rejects, or the
  conversion of \<^verbatim>\<open>body.number\<close> to a primitive throws (an object, or an array holding one,
  with an own property \<^verbatim>\<open>toString\<close>). Every other POST is answered with HTTP 200 and status
  \<^verbatim>\<open>completed\<close>, whatever the value of \<^verbatim>\<open>number\<close>: no validation precedes the inline
  computation, and a missing, null, boolean, numeric or string \<^verbatim>\<open>number\<close> never throws.
\<close>

theorem process_route_status:
  "req_pathname req = ''/api/process'' \<and> req_method req = ''POST'' \<longrightarrow>
     ((resp_status (fst (handleRequest ns now manifest env req w)) = 500) =
        ((\<exists>e. req_json req = Inl e)
         \<or> req_json req = Inr Null \<or> req_json req = Inr Undefined
         \<or> (\<exists>body e. req_json req = Inr body \<and> body \<noteq> Null \<and> body \<noteq> Undefined
               \<and> (fst (MY_WORKFLOW_create env
                          (Obj [(''params'', Obj [(''number'', field body ''number'')])]) w) = Inl e
                    \<or> ToPrimitive ns (field body ''number'') = Inl e))))
     \<and> (resp_status (fst (handleRequest ns now manifest env req w)) \<noteq> 500 \<longrightarrow>
          resp_status (fst (handleRequest ns now manifest env req w)) = 200
        \<and> field (json_of (resp_body (fst (handleRequest ns now manifest env req w)))) ''status''
            = Str ''completed'')
     \<and> (is_primitive v \<longrightarrow> ToPrimitive ns v = Inr v)"
proof (intro impI)
  assume route: "req_pathname req = ''/api/process'' \<and> req_method req = ''POST''"
  then have h: "handleRequest ns now manifest env req w = process_request ns now env req w"
    by (simp add: handleRequest_process)
  let ?R = "fst (process_request ns now env req w)"
  let ?thrown = "(\<exists>e. req_json req = Inl e)
         \<or> req_json req = Inr Null \<or> req_json req = Inr Undefined
         \<or> (\<exists>body e. req_json req = Inr body \<and> body \<noteq> Null \<and> body \<noteq> Undefined
               \<and> (fst (MY_WORKFLOW_create env
                          (Obj [(''params'', Obj [(''number'', field body ''number'')])]) w) = Inl e
                    \<or> ToPrimitive ns (field body ''number'') = Inl e))"
  have main: "(?thrown \<longrightarrow> resp_status ?R = 500)
      \<and> (\<not> ?thrown \<longrightarrow> resp_status ?R = 200
            \<and> field (json_of (resp_body ?R)) ''status'' = Str ''completed'')"
  proof (cases "req_json req")
    case (Inl e)
    then show ?thesis
      by (simp add: process_request_parse_error error_response_status)
  next
    case (Inr body)
    show ?thesis
    proof (cases "body = Null \<or> body = Undefined")
      case True
      then show ?thesis
        using process_request_null [OF Inr True, of ns now env w] Inr
        by (auto simp: error_response_status)
    next
      case False
      then have nn: "body \<noteq> Null" "body \<noteq> Undefined" by simp_all
      note pr = process_request_object [OF Inr nn, of ns now env w]
      obtain c w' where c: "MY_WORKFLOW_create env
          (Obj [(''params'', Obj [(''number'', field body ''number'')])]) w = (c, w')"
        by (cases "MY_WORKFLOW_create env
          (Obj [(''params'', Obj [(''number'', field body ''number'')])]) w") auto
      show ?thesis
      proof (cases c)
        case (Inl e)
        then show ?thesis using Inr nn c pr
          by (auto simp: error_response_status)
      next
        case created: (Inr iid)
        show ?thesis
        proof (cases "ToPrimitive ns (field body ''number'')")
          case (Inl e)
          then have "inline_result ns now (field body ''number'') = Inl e"
            by (rule inline_result_throws)
          then show ?thesis using Inr nn c created pr Inl
            by (auto simp: error_response_status)
        next
          case prim: (Inr prim)
          then obtain result where "inline_result ns now (field body ''number'') = Inr result"
            using inline_result_returns by blast
          then show ?thesis using Inr nn c created pr prim
            by (auto simp: field_def)
        qed
      qed
    qed
  qed
  have "(resp_status ?R = 500) = ?thrown"
    using main by auto
  moreover have "resp_status ?R \<noteq> 500 \<longrightarrow> resp_status ?R = 200
            \<and> field (json_of (resp_body ?R)) ''status'' = Str ''completed''"
    using main by auto
  moreover have "is_primitive v \<longrightarrow> ToPrimitive ns v = Inr v"
    by (simp add: ToPrimitive_primitive)
  ultimately show "((resp_status (fst (handleRequest ns now manifest env req w)) = 500) =
        ((\<exists>e. req_json req = Inl e)
         \<or> req_json req = Inr Null \<or> req_json req = Inr Undefined
         \<or> (\<exists>body e. req_json req = Inr body \<and> body \<noteq> Null \<and> body \<noteq> Undefined
               \<and> (fst (MY_WORKFLOW_create env
                          (Obj [(''params'', Obj [(''number'', field body ''number'')])]) w) = Inl e
                    \<or> ToPrimitive ns (field body ''number'') = Inl e))))
     \<and> (resp_status (fst (handleRequest ns now manifest env req w)) \<noteq> 500 \<longrightarrow>
          resp_status (fst (handleRequest ns now manifest env req w)) = 200
        \<and> field (json_of (resp_body (fst (handleRequest ns now manifest env req w)))) ''status''
            = Str ''completed'')
     \<and> (is_primitive v \<longrightarrow> ToPrimitive ns v = Inr v)"
    unfolding h by blast
qed


theorem process_route_status_witness:
  "req_pathname (post_process (Obj [(''number'', Str ''abc'')]) :: safe_number request)
      = ''/api/process''
   \<and> req_method (post_process (Obj [(''number'', Str ''abc'')]) :: safe_number request) = ''POST''
   \<and> resp_status (fst (handleRequest safe_integers ''2025-01-01T00:00:00.000Z'' Map.empty
          executor_env (post_process (Obj [(''number'', Str ''abc'')])) empty_ledger)) \<noteq> 500
   \<and> resp_status (fst (handleRequest safe_integers ''2025-01-01T00:00:00.000Z'' Map.empty
          executor_env (post_process (Obj [(''number'', Str ''abc'')])) empty_ledger)) = 200
   \<and> field (json_of (resp_body (fst (handleRequest safe_integers ''2025-01-01T00:00:00.000Z''
          Map.empty executor_env (post_process (Obj [(''number'', Str ''abc'')])) empty_ledger))))
        ''status'' = Str ''completed''
   \<and> is_primitive (Str ''abc'' :: safe_number jsval)
   \<and> ToPrimitive safe_integers (Str ''abc'') = Inr (Str ''abc'')"
proof -
  let ?req = "post_process (Obj [(''number'', Str ''abc'')]) :: safe_number request"
  have route: "req_pathname ?req = ''/api/process'' \<and> req_method ?req = ''POST''"
    by (simp add: post_process_def)
  have prim: "is_primitive (Str ''abc'' :: safe_number jsval)" by simp
  note t = process_route_status
    [where req = ?req and ns = safe_integers and now = "''2025-01-01T00:00:00.000Z''"
       and manifest = Map.empty and env = executor_env and w = empty_ledger
       and v = "Str ''abc''", THEN mp, OF route]
  have ne: "resp_status (fst (handleRequest safe_integers ''2025-01-01T00:00:00.000Z'' Map.empty
          executor_env ?req empty_ledger)) \<noteq> 500"
    unfolding t [THEN conjunct1]
    by (simp add: post_process_def field_def executor_env_def StartRun_params)
  note ok = t [THEN conjunct2, THEN conjunct1, THEN mp, OF ne]
  note tp = t [THEN conjunct2, THEN conjunct2, THEN mp, OF prim]
  from route ne ok tp prim show ?thesis by simp
qed

subsection \<open>Effect of a request on the workflow platform\<close>

lemma handleStaticAssets_state: "snd (handleStaticAssets manifest env req w) = w"
  by (simp add: handleStaticAssets_def Let_def)

lemma handleRequest_elsewhere:
  "\<not> (req_pathname req = ''/api/process'' \<and> req_method req = ''POST'') \<Longrightarrow>
   snd (handleRequest ns now manifest env req w) = w"
  by (auto simp: handleRequest_def handleStaticAssets_state)

lemma process_request_state:
  "snd (process_request ns now env req w) =
     (case req_json req of
        Inl e \<Rightarrow> w
      | Inr body \<Rightarrow>
          if body = Null \<or> body = Undefined then w
          else snd (MY_WORKFLOW_create env
                      (Obj [(''params'', Obj [(''number'', field body ''number'')])]) w))"
proof (cases "req_json req")
  case (Inl e)
  then show ?thesis by (simp add: process_request_def)
next
  case (Inr body)
  show ?thesis
  proof (cases "body = Null \<or> body = Undefined")
    case True
    then show ?thesis using Inr by (auto simp: process_request_def)
  next
    case False
    then have nn: "body \<noteq> Null" "body \<noteq> Undefined" by simp_all
    show ?thesis
      using Inr nn
      by (simp add: process_request_object [OF Inr nn] split: prod.splits sum.splits)
  qed
qed

lemma handleRequest_state:
  "snd (handleRequest ns now manifest env req w) =
      (if req_pathname req = ''/api/process'' \<and> req_method req = ''POST''
          \<and> (\<exists>b. req_json req = Inr b \<and> b \<noteq> Null \<and> b \<noteq> Undefined)
       then snd (MY_WORKFLOW_create env
                   (Obj [(''params'', Obj [(''number'',
                      field (case req_json req of Inr b \<Rightarrow> b | Inl e \<Rightarrow> Undefined) ''number'')])]) w)
       else w)"
proof (cases "req_pathname req = ''/api/process'' \<and> req_method req = ''POST''")
  case True
  then show ?thesis
    by (auto simp: handleRequest_process process_request_state split: sum.splits)
next
  case False
  then show ?thesis by (auto simp: handleRequest_elsewhere)
qed

text \<open>
  C10, as stated, fails. The body \<^verbatim>\<open>null\<close> parses as JSON, yet the POST carrying it creates
  no workflow instance: the argument of \<^verbatim>\<open>MY_WORKFLOW.create\<close> reads \<^verbatim>\<open>body.number\<close>, which
  throws before the call. The state of the platform is unchanged, while a call of
  \<^verbatim>\<open>create\<close> would have added a run.
\<close>

theorem null_body_creates_no_instance:
  "req_method (post_process Null :: safe_number request) = ''POST''
   \<and> req_pathname (post_process Null :: safe_number request) = ''/api/process''
   \<and> req_json (post_process Null :: safe_number request) = Inr Null
   \<and> snd (handleRequest safe_integers ''2025-01-01T00:00:00.000Z'' Map.empty
          executor_env (post_process Null) empty_ledger) = empty_ledger
   \<and> next_run (empty_ledger :: safe_number ledger) = 0
   \<and> next_run (snd (MY_WORKFLOW_create executor_env
                      (Obj [(''params'', Obj [(''number'', Undefined)])])
                      (empty_ledger :: safe_number ledger))) = 1"
  by (simp add: post_process_def handleRequest_def process_request_def executor_env_def
      StartRun_params empty_ledger_def)

text \<open>
  C10, amended. \<^verbatim>\<open>MY_WORKFLOW.create\<close> is called, once and with
  \<^verbatim>\<open>{params: {number: body.number}}\<close>, exactly when the request is a POST to
  \<^verbatim>\<open>/api/process\<close> whose body parses as JSON to a value other than \<^verbatim>\<open>null\<close>; the state of
  the workflow platform after the request is then the state that call leaves. Every other
  request (OPTIONS preflight, GET, any other path, a body that does not parse, the body
  \<^verbatim>\<open>null\<close>) is answered without calling \<^verbatim>\<open>create\<close> and leaves the state unchanged, and
  \<^verbatim>\<open>handleStaticAssets\<close> never changes it. On the executor, a run is added exactly in the
  first case.
\<close>

theorem create_called_iff_post_with_body:
  "(req_pathname req = ''/api/process'' \<and> req_method req = ''POST''
      \<and> req_json req = Inr body \<and> body \<noteq> Null \<and> body \<noteq> Undefined \<longrightarrow>
        snd (handleRequest ns now manifest env req w)
          = snd (MY_WORKFLOW_create env
                   (Obj [(''params'', Obj [(''number'', field body ''number'')])]) w))
   \<and> (\<not> (req_pathname req = ''/api/process'' \<and> req_method req = ''POST''
           \<and> (\<exists>b. req_json req = Inr b \<and> b \<noteq> Null \<and> b \<noteq> Undefined)) \<longrightarrow>
        snd (handleRequest ns now manifest env req w) = w)
   \<and> snd (handleStaticAssets manifest env req w) = w
   \<and> ((next_run (snd (handleRequest ns now manifest executor_env req l)) = Suc (next_run l))
        = (req_pathname req = ''/api/process'' \<and> req_method req = ''POST''
           \<and> (\<exists>b. req_json req = Inr b \<and> b \<noteq> Null \<and> b \<noteq> Undefined)))
   \<and> (next_run (snd (handleRequest ns now manifest executor_env req l)) \<noteq> Suc (next_run l) \<longrightarrow>
        snd (handleRequest ns now manifest executor_env req l) = l)"
proof -
  note state = handleRequest_state
  have a: "req_pathname req = ''/api/process'' \<and> req_method req = ''POST''
      \<and> req_json req = Inr body \<and> body \<noteq> Null \<and> body \<noteq> Undefined \<longrightarrow>
        snd (handleRequest ns now manifest env req w)
          = snd (MY_WORKFLOW_create env
                   (Obj [(''params'', Obj [(''number'', field body ''number'')])]) w)"
    by (auto simp: state)
  have b: "\<not> (req_pathname req = ''/api/process'' \<and> req_method req = ''POST''
           \<and> (\<exists>b. req_json req = Inr b \<and> b \<noteq> Null \<and> b \<noteq> Undefined)) \<longrightarrow>
        snd (handleRequest ns now manifest env req w) = w"
    by (auto simp: state)
  have c: "snd (handleStaticAssets manifest env req w) = w"
    by (rule handleStaticAssets_state)
  have d: "(next_run (snd (handleRequest ns now manifest executor_env req l)) = Suc (next_run l))
        = (req_pathname req = ''/api/process'' \<and> req_method req = ''POST''
           \<and> (\<exists>b. req_json req = Inr b \<and> b \<noteq> Null \<and> b \<noteq> Undefined))"
    by (auto simp: state executor_env_def StartRun_params)
  have e: "next_run (snd (handleRequest ns now manifest executor_env req l)) \<noteq> Suc (next_run l) \<longrightarrow>
        snd (handleRequest ns now manifest executor_env req l) = l"
    unfolding d by (auto simp: state)
  from a b c d e show ?thesis by blast
qed


theorem create_called_iff_post_with_body_witness:
  "req_pathname (post_process (Obj [(''number'', Num (Integer 5))]) :: safe_number request)
      = ''/api/process''
   \<and> req_method (post_process (Obj [(''number'', Num (Integer 5))]) :: safe_number request)
      = ''POST''
   \<and> req_json (post_process (Obj [(''number'', Num (Integer 5))]) :: safe_number request)
      = Inr (Obj [(''number'', Num (Integer 5))])
   \<and> snd (handleRequest safe_integers ''2025-01-01T00:00:00.000Z'' Map.empty executor_env
          (post_process (Obj [(''number'', Num (Integer 5))])) empty_ledger)
      = snd (StartRun (Obj [(''params'', Obj [(''number'', Num (Integer 5))])]) empty_ledger)
   \<and> \<not> (req_pathname (\<lparr>req_method = ''GET'', req_pathname = ''/'',
                req_json = Inl (SyntaxError ''Unexpected end of JSON input'')\<rparr>
                :: safe_number request) = ''/api/process'')
   \<and> snd (handleRequest safe_integers ''2025-01-01T00:00:00.000Z'' Map.empty executor_env
          \<lparr>req_method = ''GET'', req_pathname = ''/'',
           req_json = Inl (SyntaxError ''Unexpected end of JSON input'')\<rparr> empty_ledger)
      = empty_ledger
   \<and> next_run (snd (handleRequest safe_integers ''2025-01-01T00:00:00.000Z'' Map.empty
          executor_env (post_process Null) empty_ledger))
      \<noteq> Suc (next_run (empty_ledger :: safe_number ledger))
   \<and> snd (handleRequest safe_integers ''2025-01-01T00:00:00.000Z'' Map.empty
          executor_env (post_process Null) empty_ledger) = empty_ledger"
proof -
  let ?post = "post_process (Obj [(''number'', Num (Integer 5))]) :: safe_number request"
  let ?get = "\<lparr>req_method = ''GET'', req_pathname = ''/'',
                req_json = Inl (SyntaxError ''Unexpected end of JSON input'')\<rparr>
                :: safe_number request"
  have a: "req_pathname ?post = ''/api/process'' \<and> req_method ?post = ''POST''
      \<and> req_json ?post = Inr (Obj [(''number'', Num (Integer 5))])
      \<and> Obj [(''number'', Num (Integer 5))] \<noteq> (Null :: safe_number jsval)
      \<and> Obj [(''number'', Num (Integer 5))] \<noteq> (Undefined :: safe_number jsval)"
    by (simp add: post_process_def)
  have b: "\<not> (req_pathname ?get = ''/api/process'' \<and> req_method ?get = ''POST''
           \<and> (\<exists>b. req_json ?get = Inr b \<and> b \<noteq> Null \<and> b \<noteq> Undefined))"
    by simp
  note t1 = create_called_iff_post_with_body
    [where req = ?post and body = "Obj [(''number'', Num (Integer 5))]" and ns = safe_integers
       and now = "''2025-01-01T00:00:00.000Z''" and manifest = Map.empty and env = executor_env
       and w = empty_ledger and l = empty_ledger, THEN conjunct1, THEN mp, OF a]
  note t2 = create_called_iff_post_with_body
    [where req = ?get and ns = safe_integers
       and now = "''2025-01-01T00:00:00.000Z''" and manifest = Map.empty and env = executor_env
       and w = empty_ledger and l = empty_ledger, THEN conjunct2, THEN conjunct1, THEN mp, OF b]
  note t3 = create_called_iff_post_with_body
    [where req = "post_process Null" and ns = safe_integers
       and now = "''2025-01-01T00:00:00.000Z''" and manifest = Map.empty and env = executor_env
       and w = empty_ledger and l = "empty_ledger :: safe_number ledger",
     THEN conjunct2, THEN conjunct2, THEN conjunct2]
  have c: "next_run (snd (handleRequest safe_integers ''2025-01-01T00:00:00.000Z'' Map.empty
          executor_env (post_process Null) empty_ledger))
      \<noteq> Suc (next_run (empty_ledger :: safe_number ledger))"
    unfolding t3 [THEN conjunct1] by (simp add: post_process_def)
  note d = t3 [THEN conjunct2, THEN mp, OF c]
  from a t1 t2 c d show ?thesis
    by (simp add: executor_env_def field_def)
qed

end
